theory Spec2Isabelle
  imports Complex_Main "HOL-Library.Product_Lexorder" "HOL-Library.Multiset"
begin

section \<open>Python strings\<close>

text \<open>
  Strings are lists of 8-bit characters.  \<open>str.lower\<close> is modelled on the ASCII letters;
  every other character is left as it is.  Python's \<open>str.lower\<close> folds the letters
  outside ASCII as well; names with such letters are outside the model.
\<close>

definition lower_char :: "char \<Rightarrow> char" where
  "lower_char c =
     (case map_of (zip ''ABCDEFGHIJKLMNOPQRSTUVWXYZ'' ''abcdefghijklmnopqrstuvwxyz'') c of
        Some d \<Rightarrow> d
      | None \<Rightarrow> c)"

definition lower :: "string \<Rightarrow> string" where
  "lower s = map lower_char s"

section \<open>Deduplication of activities (DuckDuckGoActivitySearch.search_activities)\<close>

datatype exn = AttributeError | TypeError | ValueError | KeyError

text \<open>
  The \<open>name\<close> entry of an activity dictionary: the key may be absent, it may hold JSON
  \<open>null\<close> (the extraction prompt asks for null when a field is unknown), or a string.
\<close>

datatype name_entry = Absent | Null | Str string

record activity =
  act_name :: name_entry
  act_rating :: "real option"
  act_source :: string

text \<open>
  \<open>activity.get('name', '').lower()\<close>: the default applies only to an absent key; on
  \<open>None\<close> the method call raises AttributeError.
\<close>

fun get_name_lower :: "name_entry \<Rightarrow> exn + string" where
  "get_name_lower Absent = Inr (lower [])"
| "get_name_lower Null = Inl AttributeError"
| "get_name_lower (Str s) = Inr (lower s)"

text \<open>
  The loop over \<open>all_activities\<close> with its two accumulators \<open>seen_names\<close> and
  \<open>unique_activities\<close>; the function returns the activities appended from here on.
\<close>

fun unique_loop :: "string set \<Rightarrow> activity list \<Rightarrow> exn + activity list" where
  "unique_loop seen_names [] = Inr []"
| "unique_loop seen_names (a # rest) =
     (case get_name_lower (act_name a) of
        Inl e \<Rightarrow> Inl e
      | Inr name \<Rightarrow>
          if name \<noteq> [] \<and> name \<notin> seen_names
          then (case unique_loop (insert name seen_names) rest of
                  Inl e \<Rightarrow> Inl e
                | Inr kept \<Rightarrow> Inr (a # kept))
          else unique_loop seen_names rest)"

definition unique_activities :: "activity list \<Rightarrow> exn + activity list" where
  "unique_activities all_activities = unique_loop {} all_activities"

definition louvre :: activity where
  "louvre = \<lparr>act_name = Str ''Louvre'', act_rating = Some 4.5, act_source = ''DuckDuckGo Search''\<rparr>"

definition louvre_upper :: activity where
  "louvre_upper = \<lparr>act_name = Str ''LOUVRE'', act_rating = None, act_source = ''DuckDuckGo Search''\<rparr>"

definition unnamed_activity :: activity where
  "unnamed_activity = \<lparr>act_name = Absent, act_rating = None, act_source = ''DuckDuckGo Search''\<rparr>"

section \<open>Price extraction (HotelScraper.extract_price)\<close>

text \<open>
  \<open>\d\<close> on ASCII text: the ten decimal digits.  Digits of other scripts, which
  Python's \<open>\d\<close> and \<open>float\<close> also accept, are outside the model.
\<close>

definition is_digit :: "char \<Rightarrow> bool" where
  "is_digit c = (c \<in> set ''0123456789'')"

definition digit_val :: "char \<Rightarrow> nat" where
  "digit_val c = (case map_of (zip ''0123456789'' [0, 1, 2, 3, 4, 5, 6, 7, 8, 9]) c of Some d \<Rightarrow> d | None \<Rightarrow> 0)"

text \<open>The value of a string of decimal digits, as \<open>int\<close> reads it.\<close>

definition digits_val :: "string \<Rightarrow> nat" where
  "digits_val s = foldl (\<lambda>a c. 10 * a + digit_val c) 0 s"

text \<open>
  \<open>float(price_str)\<close> on the strings that reach it here: digits and dots, starting with a
  digit.  Such a string is a float literal exactly when it has at most one dot; otherwise
  \<open>float\<close> raises ValueError, which is \<open>None\<close> here.  The result is the
  decimal value itself; the rounding to a binary float is not modelled.
\<close>

definition py_float :: "string \<Rightarrow> real option" where
  "py_float s =
     (let int_part = takeWhile (\<lambda>c. c \<noteq> CHR ''.'') s;
          rest = dropWhile (\<lambda>c. c \<noteq> CHR ''.'') s
      in if rest = [] then Some (of_nat (digits_val int_part))
         else let frac_part = tl rest
              in if CHR ''.'' \<in> set frac_part then None
                 else Some (of_nat (digits_val int_part)
                            + of_nat (digits_val frac_part) / 10 ^ length frac_part))"

text \<open>
  \<open>re.search(r'[$...]?\s*?(\d+[,\.\d]*)', price_text)\<close>: whatever the optional prefix
  matches, group 1 starts at the first digit of the text and extends over the longest run
  of digits, commas and dots.  There is no match when the text has no digit.
\<close>

definition price_match :: "string \<Rightarrow> string option" where
  "price_match price_text =
     (let from_digit = dropWhile (\<lambda>c. \<not> is_digit c) price_text
      in if from_digit = [] then None
         else Some (takeWhile (\<lambda>c. is_digit c \<or> c = CHR '','' \<or> c = CHR ''.'') from_digit))"

definition extract_price :: "string \<Rightarrow> real option" where
  "extract_price price_text =
     (if price_text = [] then None
      else case price_match price_text of
             Some group1 \<Rightarrow> py_float (filter (\<lambda>c. c \<noteq> CHR '','') group1)
           | None \<Rightarrow> None)"

section \<open>Python floats with infinity\<close>

text \<open>
  The sort keys and the budget ranges use \<open>float("inf")\<close> beside ordinary numbers.
  Finite numbers are compared as the reals they denote; NaN does not occur.
\<close>

datatype pyfloat = Finite real | PosInf

instantiation pyfloat :: linorder
begin

fun less_eq_pyfloat :: "pyfloat \<Rightarrow> pyfloat \<Rightarrow> bool" where
  "less_eq_pyfloat (Finite a) (Finite b) = (a \<le> b)"
| "less_eq_pyfloat x PosInf = True"
| "less_eq_pyfloat PosInf (Finite b) = False"

definition less_pyfloat :: "pyfloat \<Rightarrow> pyfloat \<Rightarrow> bool" where
  "less_pyfloat x y = (x \<le> y \<and> \<not> y \<le> x)"

instance
proof
  fix x y z :: pyfloat
  show "(x < y) = (x \<le> y \<and> \<not> y \<le> x)" by (simp add: less_pyfloat_def)
  show "x \<le> x" by (cases x) simp_all
  show "x \<le> y \<Longrightarrow> y \<le> z \<Longrightarrow> x \<le> z" by (cases x; cases y; cases z) simp_all
  show "x \<le> y \<Longrightarrow> y \<le> x \<Longrightarrow> x = y" by (cases x; cases y) simp_all
  show "x \<le> y \<or> y \<le> x" by (cases x; cases y) auto
qed

end

text \<open>\<open>needle in hay\<close> on strings: some suffix of \<open>hay\<close> starts with \<open>needle\<close>.\<close>

definition py_in :: "string \<Rightarrow> string \<Rightarrow> bool" where
  "py_in needle hay =
     list_ex (\<lambda>k. take (length needle) (drop k hay) = needle) [0 ..< Suc (length hay)]"

section \<open>Ranking of flights (get_flight_options)\<close>

text \<open>
  The \<open>price\<close> entry of a flight dictionary: the key is absent, it holds \<open>None\<close> (as
  the scrapers write it when no price was found), or it holds a number.  The scrapers
  pass on only the records with a price and the Amadeus handler stores a number, so the
  records that get_flight_options ranks hold a number.
\<close>

datatype price_entry = PriceAbsent | PriceNone | PriceNum real

text \<open>
  A flight dictionary, as far as the sort key reads it.  \<open>fl_stops\<close> is the \<open>stops\<close>
  entry when it is a string (the scrapers' records), \<open>fl_segments\<close> the \<open>segments\<close>
  entry when the key is present (the Amadeus records).
\<close>

record flight =
  fl_airline :: string
  fl_stops :: "string option"
  fl_segments :: "string list option"
  fl_price :: price_entry
  fl_site :: string

text \<open>\<open>re.search(r'(\d+)', text)\<close> followed by \<open>int(match.group(1))\<close>.\<close>

definition first_number :: "string \<Rightarrow> nat option" where
  "first_number text =
     (let from_digit = dropWhile (\<lambda>c. \<not> is_digit c) text
      in if from_digit = [] then None else Some (digits_val (takeWhile is_digit from_digit)))"

definition flight_stops :: "flight \<Rightarrow> int" where
  "flight_stops flight =
     (case fl_stops flight of
        Some text \<Rightarrow>
          if py_in ''direct'' (lower text) \<or> py_in ''nonstop'' (lower text) then 0
          else (case first_number text of Some n \<Rightarrow> int n | None \<Rightarrow> 1)
      | None \<Rightarrow>
          (case fl_segments flight of
             Some segments \<Rightarrow> int (length segments) - 1
           | None \<Rightarrow> 0))"

text \<open>
  \<open>flight.get("price", float("inf"))\<close>: the default applies to an absent key only; an
  entry that holds \<open>None\<close> gives \<open>None\<close>.
\<close>

definition flight_price_key :: "flight \<Rightarrow> pyfloat option" where
  "flight_price_key flight =
     (case fl_price flight of
        PriceAbsent \<Rightarrow> Some PosInf
      | PriceNone \<Rightarrow> None
      | PriceNum p \<Rightarrow> Some (Finite p))"

definition flight_sort_key :: "flight \<Rightarrow> int \<times> pyfloat option" where
  "flight_sort_key flight = (flight_stops flight, flight_price_key flight)"

text \<open>
  Two keys that Python cannot order: the stops are equal, so the comparison of the
  tuples goes on to the prices, and exactly one of these is \<open>None\<close>.  (Two \<open>None\<close>
  prices are equal and are not compared further.)
\<close>

definition incomparable :: "int \<times> pyfloat option \<Rightarrow> int \<times> pyfloat option \<Rightarrow> bool" where
  "incomparable a b = (fst a = fst b \<and> (snd a = None) \<noteq> (snd b = None))"

text \<open>
  The key by which the records are ordered when every comparison succeeds.  Where a
  \<open>None\<close> price stands does not matter then: the flights with the same stops have all
  a \<open>None\<close> price or none of them has.
\<close>

definition flight_order_key :: "flight \<Rightarrow> int \<times> pyfloat" where
  "flight_order_key flight =
     (flight_stops flight,
      case flight_price_key flight of Some p \<Rightarrow> p | None \<Rightarrow> PosInf)"

text \<open>
  \<open>sorted(all_flights, key=flight_sort_key)\<close>.  Python's sort is stable.  It raises
  TypeError exactly when the list holds two records with incomparable keys: if no such
  pair is compared the comparisons made agree with both ways of placing \<open>None\<close>
  (below or above every number), and no single output is sorted for both, so a sort
  that finishes has compared such a pair.
\<close>

definition sorted_flights :: "flight list \<Rightarrow> exn + flight list" where
  "sorted_flights all_flights =
     (if list_ex (\<lambda>a. list_ex (\<lambda>b. incomparable (flight_sort_key a) (flight_sort_key b))
                     all_flights) all_flights
      then Inl TypeError
      else Inr (sort_key flight_order_key all_flights))"

definition best_overall_flights :: "nat \<Rightarrow> flight list \<Rightarrow> exn + flight list" where
  "best_overall_flights max_results all_flights =
     (case sorted_flights all_flights of
        Inl e \<Rightarrow> Inl e
      | Inr sorted_list \<Rightarrow> Inr (take max_results sorted_list))"

definition priced_one_stop :: flight where
  "priced_one_stop = \<lparr>fl_airline = ''KL'', fl_stops = Some ''1 stop'', fl_segments = None,
                       fl_price = PriceNum 100, fl_site = ''kayak''\<rparr>"

definition priced_direct :: flight where
  "priced_direct = \<lparr>fl_airline = ''AF'', fl_stops = Some ''Direct'', fl_segments = None,
                     fl_price = PriceNum 300, fl_site = ''kayak''\<rparr>"

definition priced_two_stops :: flight where
  "priced_two_stops = \<lparr>fl_airline = ''LH'', fl_stops = Some ''2 stops'', fl_segments = None,
                        fl_price = PriceNum 80, fl_site = ''skyscanner''\<rparr>"

definition amadeus_two_segments :: flight where
  "amadeus_two_segments = \<lparr>fl_airline = ''BA'', fl_stops = None,
                            fl_segments = Some [''BA117'', ''BA118''],
                            fl_price = PriceNum 842.5, fl_site = ''amadeus''\<rparr>"

definition no_price_one_stop :: flight where
  "no_price_one_stop = \<lparr>fl_airline = ''IB'', fl_stops = Some ''1 stop'', fl_segments = None,
                         fl_price = PriceAbsent, fl_site = ''kayak''\<rparr>"

definition none_price_one_stop :: flight where
  "none_price_one_stop = \<lparr>fl_airline = ''IB'', fl_stops = Some ''1 stop'', fl_segments = None,
                           fl_price = PriceNone, fl_site = ''kayak''\<rparr>"

section \<open>Ranking of hotels\<close>

text \<open>
  A hotel dictionary of the scrapers and of the merged accommodation list.  \<open>h_name\<close> and
  \<open>h_type\<close> are empty when the entry is absent; \<open>h_price\<close> and \<open>h_rating\<close> are
  \<open>None\<close> when the entry is absent or holds \<open>None\<close>, and numbers otherwise.  The
  hotels of the Amadeus handler carry their rating as a string; they are outside this
  record, which covers the hotels with numeric ratings.
\<close>

record hotel =
  h_name :: string
  h_type :: string
  h_price :: "real option"
  h_rating :: "real option"
  h_source :: string

text \<open>\<open>x or 0\<close> on an optional number.\<close>

definition rating_or_0 :: "hotel \<Rightarrow> real" where
  "rating_or_0 x = (case h_rating x of Some r \<Rightarrow> r | None \<Rightarrow> 0)"

text \<open>
  get_accommodation_options: \<open>(-1 * (hotel.get("rating") or 0), hotel.get("price", float("inf")))\<close>.
  The records that reach this key carry a numeric price or none at all.
\<close>

definition accommodation_sort_key :: "hotel \<Rightarrow> real \<times> pyfloat" where
  "accommodation_sort_key hotel =
     (- 1 * rating_or_0 hotel, case h_price hotel of Some p \<Rightarrow> Finite p | None \<Rightarrow> PosInf)"

definition sorted_accommodations :: "hotel list \<Rightarrow> hotel list" where
  "sorted_accommodations all_accommodations = sort_key accommodation_sort_key all_accommodations"

text \<open>
  HotelScraper._filter_and_rank_results:
  \<open>(-1 * (x.get("rating") or 0), x.get("price") or float('inf'))\<close>; here \<open>or\<close> replaces
  every falsy price, \<open>None\<close> and \<open>0\<close> alike.
\<close>

definition price_or_inf :: "hotel \<Rightarrow> pyfloat" where
  "price_or_inf x =
     (case h_price x of Some p \<Rightarrow> (if p = 0 then PosInf else Finite p) | None \<Rightarrow> PosInf)"

definition scraper_rank_key :: "hotel \<Rightarrow> real \<times> pyfloat" where
  "scraper_rank_key x = (- 1 * rating_or_0 x, price_or_inf x)"

definition sorted_results :: "hotel list \<Rightarrow> hotel list" where
  "sorted_results results = sort_key scraper_rank_key (filter (\<lambda>r. h_name r \<noteq> []) results)"

definition filter_and_rank_results :: "hotel list \<Rightarrow> nat \<Rightarrow> hotel list" where
  "filter_and_rank_results results top_n =
     (if results = [] then [] else take top_n (sorted_results results))"

definition free_hostel :: hotel where
  "free_hostel = \<lparr>h_name = ''Free Hostel'', h_type = '''', h_price = Some 0,
                   h_rating = Some 4, h_source = ''Booking.com''\<rparr>"

definition paid_hotel :: hotel where
  "paid_hotel = \<lparr>h_name = ''Grand Hotel'', h_type = '''', h_price = Some 50,
                  h_rating = Some 4, h_source = ''Booking.com''\<rparr>"

definition unrated_hotel :: hotel where
  "unrated_hotel = \<lparr>h_name = ''Pension'', h_type = '''', h_price = None,
                    h_rating = None, h_source = ''Agoda''\<rparr>"

section \<open>Budget filter of the scraped hotels (get_accommodation_options)\<close>

text \<open>\<open>price_ranges.get(budget_level.lower(), (0, float("inf")))\<close>\<close>

definition price_ranges :: "(string \<times> (real \<times> pyfloat)) list" where
  "price_ranges =
     [(''budget'', (0, Finite 100)),
      (''moderate'', (100, Finite 300)),
      (''luxury'', (300, PosInf))]"

definition budget_range :: "string \<Rightarrow> real \<times> pyfloat" where
  "budget_range budget_level =
     (case map_of price_ranges (lower budget_level) of
        Some bounds \<Rightarrow> bounds
      | None \<Rightarrow> (0, PosInf))"

text \<open>\<open>hotel.get("price", 0)\<close>; an entry holding \<open>None\<close> is falsy like 0.\<close>

definition price_or_zero :: "hotel \<Rightarrow> real" where
  "price_or_zero hotel = (case h_price hotel of Some p \<Rightarrow> p | None \<Rightarrow> 0)"

text \<open>
  The test on the accommodation type, which ends the iteration with \<open>continue\<close> when it
  fails.  \<open>accommodation_type\<close> is \<open>None\<close> or a string; the empty string is falsy.
\<close>

definition type_matches :: "string option \<Rightarrow> hotel \<Rightarrow> bool" where
  "type_matches accommodation_type hotel =
     (case accommodation_type of
        None \<Rightarrow> True
      | Some t \<Rightarrow>
          if t = [] then True
          else \<not> (\<not> py_in (lower t) (lower (h_type hotel))
                  \<and> \<not> py_in (lower t) (lower (h_name hotel))))"

text \<open>The inner loop over the hotels of one site, with the accumulator \<open>filtered_hotels\<close>.\<close>

fun filter_hotels ::
  "int \<Rightarrow> real \<times> pyfloat \<Rightarrow> string option \<Rightarrow> hotel list \<Rightarrow> hotel list \<Rightarrow> hotel list"
where
  "filter_hotels max_results bounds accommodation_type filtered_hotels [] = filtered_hotels"
| "filter_hotels max_results bounds accommodation_type filtered_hotels (hotel # rest) =
     (if int (length filtered_hotels) \<ge> max_results then filtered_hotels
      else
        let price = price_or_zero hotel in
        if price \<noteq> 0 \<and> fst bounds \<le> price \<and> Finite price \<le> snd bounds
        then (if type_matches accommodation_type hotel
              then filter_hotels max_results bounds accommodation_type
                     (filtered_hotels @ [hotel]) rest
              else filter_hotels max_results bounds accommodation_type filtered_hotels rest)
        else filter_hotels max_results bounds accommodation_type filtered_hotels rest)"

text \<open>
  The loop over \<open>all_results.items()\<close>: the entries added to \<open>results\<close>, which become the
  scraper-sourced part of \<open>by_site\<close>.  A site with no hotel left gets no entry.
\<close>

fun scraper_by_site ::
  "int \<Rightarrow> string \<Rightarrow> string option \<Rightarrow> (string \<times> hotel list) list \<Rightarrow> (string \<times> hotel list) list"
where
  "scraper_by_site max_results budget_level accommodation_type [] = []"
| "scraper_by_site max_results budget_level accommodation_type ((site, hotels) # rest) =
     (let filtered_hotels =
            filter_hotels max_results (budget_range budget_level) accommodation_type [] hotels
      in (if filtered_hotels \<noteq> [] then [(site, filtered_hotels)] else [])
         @ scraper_by_site max_results budget_level accommodation_type rest)"

section \<open>The retry loop of AmadeusAPIHandler.search_flights\<close>

text \<open>
  What one pass through the \<open>try\<close> block does: the call returns offers that are parsed
  into a non-empty response, it returns no data, it raises a \<open>ResponseError\<close> whose text
  starts with \<open>[429]\<close>, it raises another \<open>ResponseError\<close>, or anything in the block
  raises another exception.
\<close>

datatype api_outcome = Offers "flight list" | NoOffers | RateLimited | ApiError | Crash

text \<open>What the function hands to its caller: a list, or \<open>None\<close> when it ends without \<open>return\<close>.\<close>

datatype 'a pyvalue = PyList "'a list" | PyNone

text \<open>
  The \<open>while retries < self.max_retries\<close> loop.  The API is a function of the attempt
  number; the second component of the result counts the calls made.
\<close>

function search_flights_loop ::
  "(nat \<Rightarrow> api_outcome) \<Rightarrow> nat \<Rightarrow> nat \<Rightarrow> nat \<Rightarrow> flight pyvalue \<times> nat"
where
  "search_flights_loop api max_retries retries calls =
     (if retries < max_retries then
        (case api calls of
           Offers parsed \<Rightarrow> (PyList parsed, calls + 1)
         | NoOffers \<Rightarrow> (PyList [], calls + 1)
         | RateLimited \<Rightarrow> search_flights_loop api max_retries (retries + 1) (calls + 1)
         | ApiError \<Rightarrow> (PyList [], calls + 1)
         | Crash \<Rightarrow>
             if retries + 1 \<ge> max_retries then (PyList [], calls + 1)
             else search_flights_loop api max_retries (retries + 1) (calls + 1))
      else (PyNone, calls))"
  by pat_completeness auto
termination
  by (relation "measure (\<lambda>(api, max_retries, retries, calls). max_retries - retries)") auto

text \<open>\<open>self.max_retries = 3\<close>; \<open>client\<close> tells whether the Amadeus client was initialised.\<close>

definition search_flights :: "bool \<Rightarrow> (nat \<Rightarrow> api_outcome) \<Rightarrow> flight pyvalue \<times> nat" where
  "search_flights client api =
     (if \<not> client then (PyList [], 0) else search_flights_loop api 3 0 0)"

section \<open>The trip planner (trip_planner_tool.plan_trip)\<close>

text \<open>\<open>str(n)\<close> for a natural number, used by the f-strings.\<close>

function str_nat :: "nat \<Rightarrow> string" where
  "str_nat n =
     (if n < 10 then [''0123456789'' ! n]
      else str_nat (n div 10) @ [''0123456789'' ! (n mod 10)])"
  by pat_completeness auto
termination
  by (relation "measure id") auto

text \<open>The calls \<open>plan_trip\<close> makes to the category fetchers, in the order they happen.\<close>

datatype call =
  GetFlightOptions | GetAccommodationOptions | GetActivityOptions
  | GetTravelInformation | GenerateTripSummary

text \<open>
  The value stored under a category key: the fetcher's dictionary, or
  \<open>{"error": str(e), "results": []}\<close>; for the travel information \<open>{"error": str(e)}\<close>.
\<close>

datatype 'r entry = Fetched 'r | FetchError string "'r list"

datatype 'r info_entry = Info 'r | InfoError string

text \<open>
  The summary: the dictionary of \<open>generate_trip_summary\<close>,
  \<open>{"error": ..., "headline": ...}\<close>, or \<open>{"headline": ..., "overview": ...}\<close>.
\<close>

datatype 'r summary = LLMSummary 'r | SummaryError string string | DefaultSummary string string

record metadata =
  md_origin_city :: string
  md_destination_city :: string
  md_start_date :: string
  md_end_date :: string
  md_travelers :: int
  md_budget_level :: string
  md_trip_type :: "string option"
  md_errors :: "string list"
  md_created_at :: string

record 'r trip_plan =
  tp_flights :: "'r entry"
  tp_accommodations :: "'r entry"
  tp_activities :: "'r entry option"
  tp_travel_info :: "'r info_entry"
  tp_summary :: "'r summary"
  tp_metadata :: metadata
  tp_status :: string

text \<open>\<open>{"error": ..., "status": ...}\<close> or a trip plan.\<close>

datatype 'r plan_result = Rejected string string | Plan "'r trip_plan"

record trip_args =
  a_origin_city :: string
  a_destination_city :: string
  a_start_date :: string
  a_end_date :: string
  a_travelers :: int
  a_budget_level :: string
  a_trip_type :: "string option"
  a_accommodation_type :: "string option"
  a_flight_class :: string
  a_include_activities :: bool
  a_origin_country :: "string option"
  a_destination_country :: "string option"
  a_max_results_per_category :: int

text \<open>
  What \<open>plan_trip\<close> calls.  \<open>sv_strptime\<close> is \<open>datetime.strptime(_, "%Y-%m-%d")\<close> as a
  day number, \<open>None\<close> for ValueError.  A fetcher returns \<open>Inr\<close> its dictionary or
  \<open>Inl (str e)\<close> when it raises the exception \<open>e\<close>.  The fetchers are functions of the
  arguments of the call; \<open>sv_generate_trip_summary\<close> reads the categories and the errors.
\<close>

record 'r services =
  sv_strptime :: "string \<Rightarrow> int option"
  sv_now_isoformat :: string
  sv_openai_api_key :: bool
  sv_get_flight_options :: "trip_args \<Rightarrow> string + 'r"
  sv_get_accommodation_options :: "trip_args \<Rightarrow> string + 'r"
  sv_get_activity_options :: "trip_args \<Rightarrow> string + 'r"
  sv_get_travel_information :: "string option \<Rightarrow> string \<Rightarrow> string + 'r"
  sv_generate_trip_summary ::
    "'r entry \<Rightarrow> 'r entry \<Rightarrow> 'r entry option \<Rightarrow> 'r info_entry \<Rightarrow> string list \<Rightarrow> string + 'r"

text \<open>
  One \<open>try\<close>/\<open>except Exception\<close> block around a category fetcher.  The state is the list
  \<open>errors\<close> and the log of the calls made.
\<close>

definition fetch_category ::
  "call \<Rightarrow> string \<Rightarrow> string + 'r \<Rightarrow> string list \<times> call list \<Rightarrow> 'r entry \<times> string list \<times> call list"
where
  "fetch_category c label outcome st =
     (case outcome of
        Inr results \<Rightarrow> (Fetched results, fst st, snd st @ [c])
      | Inl e \<Rightarrow>
          (FetchError e [],
           fst st @ [''Could not retrieve '' @ label @ '': '' @ e],
           snd st @ [c]))"

definition fetch_travel_info ::
  "string + 'r \<Rightarrow> string list \<times> call list \<Rightarrow> 'r info_entry \<times> string list \<times> call list"
where
  "fetch_travel_info outcome st =
     (case outcome of
        Inr travel_info \<Rightarrow> (Info travel_info, fst st, snd st @ [GetTravelInformation])
      | Inl e \<Rightarrow>
          (InfoError e,
           fst st @ [''Could not retrieve travel information: '' @ e],
           snd st @ [GetTravelInformation]))"

definition plan_status :: "string list \<Rightarrow> string" where
  "plan_status errors =
     (if errors \<noteq> [] then (if length errors < 4 then ''partial'' else ''failed'')
      else ''success'')"

definition plan_trip :: "'r services \<Rightarrow> trip_args \<Rightarrow> 'r plan_result \<times> call list" where
  "plan_trip sv a =
     (case sv_strptime sv (a_start_date a) of
        None \<Rightarrow> (Rejected ''Invalid date format. Please use YYYY-MM-DD'' ''failed'', [])
      | Some start \<Rightarrow>
     (case sv_strptime sv (a_end_date a) of
        None \<Rightarrow> (Rejected ''Invalid date format. Please use YYYY-MM-DD'' ''failed'', [])
      | Some end_day \<Rightarrow>
          if end_day < start
          then (Rejected ''End date must be after start date'' ''failed'', [])
          else
            let trip_duration = nat (end_day - start);
                dest_country =
                  (case a_destination_country a of
                     None \<Rightarrow> a_destination_city a
                   | Some c \<Rightarrow> if c = [] then a_destination_city a else c);
                (flights, st1) =
                  fetch_category GetFlightOptions ''flight options''
                    (sv_get_flight_options sv a) ([], []);
                (accommodations, st2) =
                  fetch_category GetAccommodationOptions ''accommodation options''
                    (sv_get_accommodation_options sv a) st1;
                (activities, st3) =
                  (if a_include_activities a
                   then (let (r, st) =
                               fetch_category GetActivityOptions ''activity options''
                                 (sv_get_activity_options sv a) st2
                         in (Some r, st))
                   else (None, st2));
                (travel_info, st4) =
                  fetch_travel_info
                    (sv_get_travel_information sv (a_origin_country a) dest_country) st3;
                errors = fst st4;
                (summary, log) =
                  (if sv_openai_api_key sv
                   then
                     (case sv_generate_trip_summary sv flights accommodations activities
                             travel_info errors of
                        Inr trip_summary \<Rightarrow> LLMSummary trip_summary
                      | Inl e \<Rightarrow>
                          SummaryError (''Could not generate summary: '' @ e)
                            (''Trip to '' @ a_destination_city a),
                      snd st4 @ [GenerateTripSummary])
                   else
                     (DefaultSummary (''Trip to '' @ a_destination_city a)
                        (''A '' @ str_nat trip_duration @ ''-day trip from '' @ a_origin_city a
                         @ '' to '' @ a_destination_city a @ ''.''),
                      snd st4))
            in (Plan \<lparr>tp_flights = flights,
                      tp_accommodations = accommodations,
                      tp_activities = activities,
                      tp_travel_info = travel_info,
                      tp_summary = summary,
                      tp_metadata =
                        \<lparr>md_origin_city = a_origin_city a,
                         md_destination_city = a_destination_city a,
                         md_start_date = a_start_date a,
                         md_end_date = a_end_date a,
                         md_travelers = a_travelers a,
                         md_budget_level = a_budget_level a,
                         md_trip_type = a_trip_type a,
                         md_errors = errors,
                         md_created_at = sv_now_isoformat sv\<rparr>,
                      tp_status = plan_status errors\<rparr>,
                log)))"

section \<open>The tool wrapper (trip_planner_tool.llm_trip_planner_tool)\<close>

text \<open>The \<open>params\<close> dictionary: each entry is \<open>None\<close> when the key is absent.\<close>

record tool_params =
  p_origin_city :: "string option"
  p_destination_city :: "string option"
  p_start_date :: "string option"
  p_end_date :: "string option"
  p_travelers :: "int option"
  p_budget_level :: "string option"
  p_trip_type :: "string option"
  p_accommodation_type :: "string option"
  p_flight_class :: "string option"
  p_include_activities :: "bool option"
  p_origin_country :: "string option"
  p_destination_country :: "string option"

text \<open>Truth value of an optional string: \<open>None\<close> and the empty string are falsy.\<close>

definition truthy :: "string option \<Rightarrow> bool" where
  "truthy v = (case v of None \<Rightarrow> False | Some s \<Rightarrow> s \<noteq> [])"

definition get_default :: "'a option \<Rightarrow> 'a \<Rightarrow> 'a" where
  "get_default v d = (case v of None \<Rightarrow> d | Some x \<Rightarrow> x)"

definition llm_trip_planner_tool ::
  "'r services \<Rightarrow> tool_params \<Rightarrow> 'r plan_result \<times> call list"
where
  "llm_trip_planner_tool sv params =
     (if \<not> (truthy (p_origin_city params) \<and> truthy (p_destination_city params)
            \<and> truthy (p_start_date params) \<and> truthy (p_end_date params))
      then (Rejected
              ''Missing required parameters. Must provide origin_city, destination_city, start_date, and end_date.''
              ''failed'', [])
      else plan_trip sv
             \<lparr>a_origin_city = get_default (p_origin_city params) [],
              a_destination_city = get_default (p_destination_city params) [],
              a_start_date = get_default (p_start_date params) [],
              a_end_date = get_default (p_end_date params) [],
              a_travelers = get_default (p_travelers params) 2,
              a_budget_level = get_default (p_budget_level params) ''moderate'',
              a_trip_type = p_trip_type params,
              a_accommodation_type = p_accommodation_type params,
              a_flight_class = get_default (p_flight_class params) ''economy'',
              a_include_activities = get_default (p_include_activities params) True,
              a_origin_country =
                (case p_origin_country params of None \<Rightarrow> Some ''United States'' | Some c \<Rightarrow> Some c),
              a_destination_country = p_destination_country params,
              a_max_results_per_category = 3\<rparr>)"

text \<open>The value stored for a fetcher's outcome, and the message appended to \<open>errors\<close>.\<close>

definition entry_of :: "string + 'r \<Rightarrow> 'r entry" where
  "entry_of outcome = (case outcome of Inr r \<Rightarrow> Fetched r | Inl e \<Rightarrow> FetchError e [])"

definition error_of :: "string \<Rightarrow> string + 'r \<Rightarrow> string list" where
  "error_of label outcome =
     (case outcome of Inr r \<Rightarrow> [] | Inl e \<Rightarrow> [''Could not retrieve '' @ label @ '': '' @ e])"

definition country_of :: "trip_args \<Rightarrow> string" where
  "country_of a =
     (case a_destination_country a of
        None \<Rightarrow> a_destination_city a
      | Some c \<Rightarrow> if c = [] then a_destination_city a else c)"

text \<open>A run in which the flight fetcher raises and the other fetchers answer.\<close>

definition paris_args :: trip_args where
  "paris_args =
     \<lparr>a_origin_city = ''New York'', a_destination_city = ''Paris'',
      a_start_date = ''2025-06-15'', a_end_date = ''2025-06-22'', a_travelers = 2,
      a_budget_level = ''moderate'', a_trip_type = None, a_accommodation_type = None,
      a_flight_class = ''economy'', a_include_activities = True,
      a_origin_country = Some ''United States'', a_destination_country = None,
      a_max_results_per_category = 3\<rparr>"

definition flaky_services :: "string services" where
  "flaky_services =
     \<lparr>sv_strptime = (\<lambda>d. if d = ''2025-06-15'' then Some 739417
                          else if d = ''2025-06-22'' then Some 739424 else None),
      sv_now_isoformat = ''2025-01-01T00:00:00'',
      sv_openai_api_key = False,
      sv_get_flight_options = (\<lambda>a. Inl ''connection refused''),
      sv_get_accommodation_options = (\<lambda>a. Inr ''hotels''),
      sv_get_activity_options = (\<lambda>a. Inr ''activities''),
      sv_get_travel_information = (\<lambda>orig dest. Inr ''visa''),
      sv_generate_trip_summary = (\<lambda>f h a t errors. Inl ''unused'')\<rparr>"

definition no_destination_params :: tool_params where
  "no_destination_params =
     \<lparr>p_origin_city = Some ''New York'', p_destination_city = None,
      p_start_date = Some ''2025-06-15'', p_end_date = Some ''2025-06-22'',
      p_travelers = None, p_budget_level = None, p_trip_type = None,
      p_accommodation_type = None, p_flight_class = None, p_include_activities = None,
      p_origin_country = None, p_destination_country = None\<rparr>"

section \<open>The Amadeus trip planner (AmadeusTripPlannerTool.plan_trip)\<close>

text \<open>The calls to the sources, in the order they happen.\<close>

datatype source_call =
  AmadeusGetCityCode string
  | AmadeusSearchFlights
  | DuckDuckGoSearchHotels
  | AmadeusSearchHotels
  | DuckDuckGoSearchActivities
  | FirecrawlSearchActivities
  | FirecrawlSearchTouristAttractions
  | FirecrawlSearchRestaurants
  | ScraperSearchFlights

record trip_details =
  td_origin_city :: "string option"
  td_destination_city :: "string option"
  td_departure_date :: "string option"
  td_return_date :: "string option"
  td_travelers :: int
  td_budget_level :: string
  td_accommodation_type :: "string option"
  td_flight_class :: string

text \<open>
  The collaborators of the planner.  \<open>extract_trip_details\<close>, \<open>activity_type_of\<close>,
  \<open>mentions_food\<close> (regular expressions on the query) and \<open>default_airport_code\<close> (a
  table lookup) are pure and call no source.  A source call returns \<open>Inr\<close> its
  value or \<open>Inl\<close> the text of the exception it raises; the records are of type \<open>'x\<close>.
\<close>

record 'x sources =
  src_extract_trip_details :: "string \<Rightarrow> trip_details"
  src_activity_type_of :: "string \<Rightarrow> string option"
  src_mentions_food :: "string \<Rightarrow> bool"
  src_default_airport_code :: "string \<Rightarrow> string option"
  src_get_city_code :: "string \<Rightarrow> string + string option"
  src_amadeus_search_flights :: "string \<Rightarrow> string \<Rightarrow> trip_details \<Rightarrow> string + 'x pyvalue"
  src_duckduckgo_search_hotels :: "string \<Rightarrow> trip_details \<Rightarrow> string + 'x list"
  src_amadeus_search_hotels :: "string option \<Rightarrow> trip_details \<Rightarrow> string + 'x pyvalue"
  src_duckduckgo_search_activities :: "string \<Rightarrow> string option \<Rightarrow> string + 'x list"
  src_firecrawl_search_activities :: "string \<Rightarrow> string option \<Rightarrow> string + 'x list"
  src_firecrawl_search_tourist_attractions :: "string \<Rightarrow> string + 'x list"
  src_firecrawl_search_restaurants :: "string \<Rightarrow> string + 'x list"

text \<open>The mutable part of \<open>result\<close>, with the log of the source calls.\<close>

record 'x planner_state =
  st_flights :: "'x list"
  st_hotels :: "'x list"
  st_activities :: "'x list"
  st_suggestions :: "string list"
  st_calls :: "source_call list"

definition suggest :: "string \<Rightarrow> 'x planner_state \<Rightarrow> 'x planner_state" where
  "suggest s st = st\<lparr>st_suggestions := st_suggestions st @ [s]\<rparr>"

definition called :: "source_call \<Rightarrow> 'x planner_state \<Rightarrow> 'x planner_state" where
  "called c st = st\<lparr>st_calls := st_calls st @ [c]\<rparr>"

text \<open>Truth value of a returned list: \<open>None\<close> and the empty list are falsy.\<close>

definition items :: "'x pyvalue \<Rightarrow> 'x list" where
  "items v = (case v of PyList xs \<Rightarrow> xs | PyNone \<Rightarrow> [])"

text \<open>
  \<open>code = self.amadeus.get_city_code(city)\<close>, then the default table and the suggestion
  when nothing is found.  The call has been logged by the caller.
\<close>

definition resolve_code ::
  "'x sources \<Rightarrow> string \<Rightarrow> string option \<Rightarrow> 'x planner_state \<Rightarrow> string option \<times> 'x planner_state"
where
  "resolve_code src city code st =
     (if truthy code then (code, st)
      else let default_code = src_default_airport_code src city
           in if truthy default_code then (default_code, st)
              else (default_code,
                    suggest (''I couldn't find the airport code for '' @ city
                             @ ''. Try using a major city nearby.'') st))"

definition flight_error :: "'x planner_state \<Rightarrow> 'x planner_state" where
  "flight_error st =
     suggest ''There was an error getting flight information. Please try again later.'' st"

definition flights_section ::
  "'x sources \<Rightarrow> trip_details \<Rightarrow> string \<Rightarrow> string \<Rightarrow> 'x planner_state \<Rightarrow> 'x planner_state"
where
  "flights_section src td origin destination st =
     (let st1 = called (AmadeusGetCityCode origin) st in
      case src_get_city_code src origin of
        Inl e \<Rightarrow> flight_error st1
      | Inr oc \<Rightarrow>
     (let (origin_code, st2) = resolve_code src origin oc st1;
          st3 = called (AmadeusGetCityCode destination) st2 in
      case src_get_city_code src destination of
        Inl e \<Rightarrow> flight_error st3
      | Inr dc \<Rightarrow>
     (let (destination_code, st4) = resolve_code src destination dc st3 in
      if truthy origin_code \<and> truthy destination_code
      then
        (let st5 = called AmadeusSearchFlights st4 in
         case src_amadeus_search_flights src (get_default origin_code [])
                (get_default destination_code []) td of
           Inl e \<Rightarrow> flight_error st5
         | Inr flights \<Rightarrow>
             if items flights \<noteq> [] then st5\<lparr>st_flights := items flights\<rparr>
             else suggest (''I couldn't find any flights from '' @ origin @ '' to ''
                           @ destination @ '' for the specified dates. ''
                           @ ''Try different dates or nearby airports.'') st5)
      else
        (let st5 = (if \<not> truthy origin_code
                    then suggest (''I couldn't identify the airport code for '' @ origin @ ''.'') st4
                    else st4);
             st6 = (if \<not> truthy destination_code
                    then suggest (''I couldn't identify the airport code for '' @ destination
                                  @ ''.'') st5
                    else st5)
         in suggest ''Try specifying major cities with international airports.'' st6))))"

definition no_hotels_message :: "string \<Rightarrow> string" where
  "no_hotels_message destination =
     ''I couldn't find any hotels in '' @ destination @ '' for the specified dates. ''
     @ ''Try different dates or a different destination.''"

text \<open>
  The inner \<open>try\<close> of the hotel search: the Amadeus fallback, entered only when the web
  search returned nothing.
\<close>

definition amadeus_hotel_fallback ::
  "'x sources \<Rightarrow> trip_details \<Rightarrow> string \<Rightarrow> 'x planner_state \<Rightarrow> 'x planner_state"
where
  "amadeus_hotel_fallback src td destination st =
     (let st1 = called (AmadeusGetCityCode destination) st in
      case src_get_city_code src destination of
        Inl e \<Rightarrow> suggest (no_hotels_message destination) st1
      | Inr code \<Rightarrow>
          (let destination_code =
                 (if truthy code then code else src_default_airport_code src destination);
               st2 = called AmadeusSearchHotels st1 in
           case src_amadeus_search_hotels src destination_code td of
             Inl e \<Rightarrow> suggest (no_hotels_message destination) st2
           | Inr hotels \<Rightarrow>
               if items hotels \<noteq> []
               then suggest ''Hotel information was sourced from our official hotel provider.''
                      (st2\<lparr>st_hotels := items hotels\<rparr>)
               else suggest (no_hotels_message destination) st2))"

definition hotels_section ::
  "'x sources \<Rightarrow> trip_details \<Rightarrow> string \<Rightarrow> 'x planner_state \<Rightarrow> 'x planner_state"
where
  "hotels_section src td destination st =
     (let st1 = called DuckDuckGoSearchHotels st in
      case src_duckduckgo_search_hotels src destination td of
        Inl e \<Rightarrow>
          suggest ''There was an error getting hotel information. Please try again later.'' st1
      | Inr web_hotels \<Rightarrow>
          (let st2 = (if web_hotels \<noteq> [] then st1\<lparr>st_hotels := web_hotels\<rparr>
                      else amadeus_hotel_fallback src td destination st1)
           in if st_hotels st2 = [] then suggest (no_hotels_message destination) st2
              else st2))"

definition activity_error :: "'x planner_state \<Rightarrow> 'x planner_state" where
  "activity_error st =
     suggest ''There was an error getting activity information. Please try again later.'' st"

definition store_activities :: "string \<Rightarrow> 'x list \<Rightarrow> 'x planner_state \<Rightarrow> 'x planner_state" where
  "store_activities destination activities st =
     (if activities \<noteq> [] then st\<lparr>st_activities := activities\<rparr>
      else suggest (''I couldn't find any activities in '' @ destination @ ''. ''
                    @ ''Try being more specific about what you'd like to do.'') st)"

definition activities_section ::
  "'x sources \<Rightarrow> string \<Rightarrow> string \<Rightarrow> 'x planner_state \<Rightarrow> 'x planner_state"
where
  "activities_section src query destination st =
     (let activity_type = src_activity_type_of src query;
          st1 = called DuckDuckGoSearchActivities st in
      case src_duckduckgo_search_activities src destination activity_type of
        Inl e \<Rightarrow> activity_error st1
      | Inr activities \<Rightarrow>
          if activities \<noteq> [] then store_activities destination activities st1
          else
            (let st2 = called FirecrawlSearchActivities st1 in
             case src_firecrawl_search_activities src destination activity_type of
               Inl e \<Rightarrow> activity_error st2
             | Inr firecrawl_activities \<Rightarrow>
            (let st3 = called FirecrawlSearchTouristAttractions st2 in
             case src_firecrawl_search_tourist_attractions src destination of
               Inl e \<Rightarrow> activity_error st3
             | Inr attractions \<Rightarrow>
                 if src_mentions_food src query
                 then
                   (let st4 = called FirecrawlSearchRestaurants st3 in
                    case src_firecrawl_search_restaurants src destination of
                      Inl e \<Rightarrow> activity_error st4
                    | Inr restaurants \<Rightarrow>
                        store_activities destination
                          (activities @ firecrawl_activities @ attractions @ restaurants) st4)
                 else store_activities destination
                        (activities @ firecrawl_activities @ attractions) st3)))"

text \<open>
  The result: \<open>{"status": "error", "error": ...}\<close>, or the result dictionary (status
  "success"; the recommendations, computed from the other entries without any call, are
  left out).
\<close>

datatype 'x planner_result =
  QueryError string string
  | TripResult string trip_details "'x list" "'x list" "'x list" "string list"

definition amadeus_plan_trip ::
  "'x sources \<Rightarrow> string \<Rightarrow> 'x planner_result \<times> source_call list"
where
  "amadeus_plan_trip src query =
     (let td = src_extract_trip_details src query in
      if \<not> truthy (td_destination_city td)
      then (QueryError ''error''
              ''Could not determine the destination city from your query. Please specify where you want to go.'',
            [])
      else
        (let destination = get_default (td_destination_city td) [];
             st0 = \<lparr>st_flights = [], st_hotels = [], st_activities = [],
                    st_suggestions = [], st_calls = []\<rparr>;
             st1 = (if truthy (td_origin_city td)
                    then flights_section src td (get_default (td_origin_city td) [])
                           destination st0
                    else st0);
             st2 = hotels_section src td destination st1;
             st3 = activities_section src query destination st2
         in (TripResult query td (st_flights st3) (st_hotels st3) (st_activities st3)
               (st_suggestions st3),
             st_calls st3)))"

section \<open>The flight pipeline (trip_planner_tool.get_flight_options)\<close>

text \<open>
  The collaborators: \<open>get_airport_code\<close> (a table lookup, pure), the Amadeus handler's
  \<open>get_city_code\<close> and \<open>search_flights\<close>, and the scraper's
  \<open>search_flights_all_sites\<close>, which returns the flights of each site.
\<close>

record flight_sources =
  fs_get_airport_code :: "string \<Rightarrow> string"
  fs_get_city_code :: "string \<Rightarrow> string + string option"
  fs_search_flights :: "string \<Rightarrow> string \<Rightarrow> string + flight pyvalue"
  fs_search_flights_all_sites :: "string \<Rightarrow> string \<Rightarrow> string + (string \<times> flight list) list"

record flight_options =
  fo_best_overall :: "flight list"
  fo_by_site :: "(string \<times> flight list) list"

text \<open>\<open>code = amadeus_client.get_city_code(city) or fallback\<close>\<close>

definition code_or :: "string option \<Rightarrow> string \<Rightarrow> string" where
  "code_or code fallback = (if truthy code then get_default code [] else fallback)"

text \<open>
  The first \<open>try\<close> block: the entries it adds to \<open>results\<close> and the calls it makes.  An
  exception ends the block with nothing added.
\<close>

definition amadeus_flights_block ::
  "flight_sources \<Rightarrow> string \<Rightarrow> string \<Rightarrow> (string \<times> flight list) list \<times> source_call list"
where
  "amadeus_flights_block fs origin_city destination_city =
     (case fs_get_city_code fs origin_city of
        Inl e \<Rightarrow> ([], [AmadeusGetCityCode origin_city])
      | Inr oc \<Rightarrow>
     (case fs_get_city_code fs destination_city of
        Inl e \<Rightarrow> ([], [AmadeusGetCityCode origin_city, AmadeusGetCityCode destination_city])
      | Inr dc \<Rightarrow>
          (let origin_iata = code_or oc (fs_get_airport_code fs origin_city);
               destination_iata = code_or dc (fs_get_airport_code fs destination_city);
               calls = [AmadeusGetCityCode origin_city, AmadeusGetCityCode destination_city,
                        AmadeusSearchFlights]
           in case fs_search_flights fs origin_iata destination_iata of
                Inl e \<Rightarrow> ([], calls)
              | Inr amadeus_flights \<Rightarrow>
                  (if items amadeus_flights \<noteq> [] then [(''amadeus'', items amadeus_flights)]
                   else [],
                   calls))))"

text \<open>
  The second \<open>try\<close> block.  It is entered whatever the first block found.  The inner loop
  keeps the first \<open>max_results\<close> flights of a site; a site with no flight gets no entry.
\<close>

definition scraper_flights_block ::
  "flight_sources \<Rightarrow> string \<Rightarrow> string \<Rightarrow> nat \<Rightarrow> (string \<times> flight list) list \<times> source_call list"
where
  "scraper_flights_block fs origin_city destination_city max_results =
     (case fs_search_flights_all_sites fs (fs_get_airport_code fs origin_city)
             (fs_get_airport_code fs destination_city) of
        Inl e \<Rightarrow> ([], [ScraperSearchFlights])
      | Inr all_results \<Rightarrow>
          (filter (\<lambda>(site, filtered_flights). filtered_flights \<noteq> [])
             (map (\<lambda>(site, flights). (site, take max_results flights)) all_results),
           [ScraperSearchFlights]))"

text \<open>
  The function returns its dictionary, or raises what the sort raises (the sort stands
  outside the two \<open>try\<close> blocks); the calls have been made all the same.
\<close>

definition get_flight_options ::
  "flight_sources \<Rightarrow> string \<Rightarrow> string \<Rightarrow> nat
     \<Rightarrow> (exn + flight_options) \<times> source_call list"
where
  "get_flight_options fs origin_city destination_city max_results =
     (let (amadeus_results, calls1) = amadeus_flights_block fs origin_city destination_city;
          (scraper_results, calls2) =
            scraper_flights_block fs origin_city destination_city max_results;
          results = amadeus_results @ scraper_results
      in if results = []
         then (Inr \<lparr>fo_best_overall = [], fo_by_site = []\<rparr>, calls1 @ calls2)
         else
           (let all_flights =
                  concat (map (\<lambda>(site, flights). map (\<lambda>flight. flight\<lparr>fl_site := site\<rparr>) flights)
                            results)
            in (case best_overall_flights max_results all_flights of
                  Inl e \<Rightarrow> Inl e
                | Inr best_overall \<Rightarrow>
                    Inr \<lparr>fo_best_overall = best_overall, fo_by_site = results\<rparr>,
                calls1 @ calls2)))"

text \<open>Sources for the runs below: Amadeus finds three flights, the web search five hotels.\<close>

definition full_flight_sources :: flight_sources where
  "full_flight_sources =
     \<lparr>fs_get_airport_code = (\<lambda>city. if city = ''Paris'' then ''CDG'' else ''JFK''),
      fs_get_city_code = (\<lambda>city. Inr (Some (if city = ''Paris'' then ''PAR'' else ''NYC''))),
      fs_search_flights =
        (\<lambda>orig dest. Inr (PyList [amadeus_two_segments, amadeus_two_segments,
                                    amadeus_two_segments])),
      fs_search_flights_all_sites = (\<lambda>orig dest. Inr [(''kayak'', [priced_one_stop])])\<rparr>"

definition paris_details :: trip_details where
  "paris_details =
     \<lparr>td_origin_city = None, td_destination_city = Some ''Paris'',
      td_departure_date = Some ''2025-06-15'', td_return_date = Some ''2025-06-22'',
      td_travelers = 2, td_budget_level = ''moderate'', td_accommodation_type = None,
      td_flight_class = ''economy''\<rparr>"

definition paris_sources :: "nat sources" where
  "paris_sources =
     \<lparr>src_extract_trip_details =
        (\<lambda>query. if query = ''hello'' then paris_details\<lparr>td_destination_city := None\<rparr>
                  else paris_details),
      src_activity_type_of = (\<lambda>query. None),
      src_mentions_food = (\<lambda>query. False),
      src_default_airport_code = (\<lambda>city. Some ''PAR''),
      src_get_city_code = (\<lambda>city. Inr (Some ''PAR'')),
      src_amadeus_search_flights = (\<lambda>orig dest td. Inr (PyList [])),
      src_duckduckgo_search_hotels = (\<lambda>city td. Inr [1, 2, 3, 4, 5]),
      src_amadeus_search_hotels = (\<lambda>code td. Inr (PyList [6, 7])),
      src_duckduckgo_search_activities = (\<lambda>city ty. Inr [8]),
      src_firecrawl_search_activities = (\<lambda>city ty. Inr []),
      src_firecrawl_search_tourist_attractions = (\<lambda>city. Inr []),
      src_firecrawl_search_restaurants = (\<lambda>city. Inr [])\<rparr>"

section \<open>Deduplication of hotels (DuckDuckGoHotelSearch.search_hotels)\<close>

text \<open>A hotel as the extraction returns it, and the standardized record built from it.\<close>

record raw_hotel =
  rh_name :: name_entry
  rh_location :: string
  rh_stars :: string
  rh_price_range :: string
  rh_amenities :: "string list"
  rh_description :: string
  rh_room_types :: "string list"
  rh_guest_rating :: string
  rh_special_features :: "string list"

record web_hotel =
  wh_id :: string
  wh_name :: string
  wh_address :: string
  wh_stars :: string
  wh_price :: string
  wh_amenities :: "string list"
  wh_description :: string
  wh_room_types :: "string list"
  wh_rating :: string
  wh_special_features :: "string list"
  wh_source :: string

text \<open>
  One search result after scraping and extraction: \<open>pg_content\<close> is the scraped text
  (empty when scraping failed), \<open>pg_hotels\<close> the \<open>hotels\<close> entry of the extracted
  dictionary, \<open>None\<close> when the key is absent.
\<close>

record page =
  pg_url :: string
  pg_content :: string
  pg_hotels :: "raw_hotel list option"

text \<open>\<open>hotel.get('name')\<close> when it is truthy.\<close>

definition hotel_name :: "raw_hotel \<Rightarrow> string option" where
  "hotel_name hotel =
     (case rh_name hotel of Str s \<Rightarrow> (if s = [] then None else Some s) | Null \<Rightarrow> None
      | Absent \<Rightarrow> None)"

definition standardize :: "nat \<Rightarrow> raw_hotel \<Rightarrow> web_hotel" where
  "standardize n hotel =
     \<lparr>wh_id = ''ddg-'' @ str_nat n,
      wh_name = (case rh_name hotel of Str s \<Rightarrow> s | Null \<Rightarrow> [] | Absent \<Rightarrow> []),
      wh_address = rh_location hotel,
      wh_stars = rh_stars hotel,
      wh_price = rh_price_range hotel,
      wh_amenities = rh_amenities hotel,
      wh_description = rh_description hotel,
      wh_room_types = rh_room_types hotel,
      wh_rating = rh_guest_rating hotel,
      wh_special_features = rh_special_features hotel,
      wh_source = ''DuckDuckGo Web Search''\<rparr>"

text \<open>
  The loop over the hotels of one page.  The state is \<open>all_hotels\<close> with
  \<open>processed_hotel_names\<close>; the loop ends early (\<open>break\<close>) when \<open>max_results\<close> is
  reached after an append.
\<close>

fun hotels_loop ::
  "int \<Rightarrow> web_hotel list \<times> string set \<Rightarrow> raw_hotel list \<Rightarrow> web_hotel list \<times> string set"
where
  "hotels_loop max_results st [] = st"
| "hotels_loop max_results (all_hotels, processed_hotel_names) (hotel # rest) =
     (case hotel_name hotel of
        None \<Rightarrow> hotels_loop max_results (all_hotels, processed_hotel_names) rest
      | Some name \<Rightarrow>
          if lower name \<in> processed_hotel_names
          then hotels_loop max_results (all_hotels, processed_hotel_names) rest
          else
            let names = insert (lower name) processed_hotel_names;
                all_hotels' = all_hotels @ [standardize (length all_hotels) hotel]
            in if int (length all_hotels') \<ge> max_results then (all_hotels', names)
               else hotels_loop max_results (all_hotels', names) rest)"

text \<open>
  The loop over the search results: a page without content is skipped (\<open>continue\<close>);
  after any other page the loop ends when \<open>max_results\<close> is reached.
\<close>

fun results_loop ::
  "int \<Rightarrow> web_hotel list \<times> string set \<Rightarrow> page list \<Rightarrow> web_hotel list \<times> string set"
where
  "results_loop max_results st [] = st"
| "results_loop max_results st (result # rest) =
     (if pg_content result = [] then results_loop max_results st rest
      else
        let st' = (case pg_hotels result of
                     None \<Rightarrow> st
                   | Some hotels \<Rightarrow> if hotels \<noteq> [] then hotels_loop max_results st hotels else st)
        in if int (length (fst st')) \<ge> max_results then st'
           else results_loop max_results st' rest)"

definition search_hotels :: "int \<Rightarrow> page list \<Rightarrow> web_hotel list" where
  "search_hotels max_results search_results =
     (if search_results = [] then [] else fst (results_loop max_results ([], {}) search_results))"

text \<open>
  For the statement of the properties: the hotels the loops go through, in order, and the
  key under which a hotel is remembered.
\<close>

definition page_hotels :: "page \<Rightarrow> raw_hotel list" where
  "page_hotels result =
     (if pg_content result = [] then []
      else case pg_hotels result of None \<Rightarrow> [] | Some hotels \<Rightarrow> hotels)"

definition candidates :: "page list \<Rightarrow> raw_hotel list" where
  "candidates search_results = concat (map page_hotels search_results)"

definition hotel_key :: "raw_hotel \<Rightarrow> string option" where
  "hotel_key hotel = map_option lower (hotel_name hotel)"

definition raw_named :: "string \<Rightarrow> string \<Rightarrow> raw_hotel" where
  "raw_named name location =
     \<lparr>rh_name = Str name, rh_location = location, rh_stars = ''4'', rh_price_range = [],
      rh_amenities = [], rh_description = [], rh_room_types = [], rh_guest_rating = [],
      rh_special_features = []\<rparr>"

definition page_of :: "string \<Rightarrow> raw_hotel list \<Rightarrow> page" where
  "page_of url hotels = \<lparr>pg_url = url, pg_content = ''content'', pg_hotels = Some hotels\<rparr>"

text \<open>
  What deduplication by first-seen key means: going through the hotels in order, a hotel
  is kept when it has a key and no hotel before it has the same key.
\<close>

function first_seen :: "raw_hotel list \<Rightarrow> raw_hotel list" where
  "first_seen [] = []"
| "first_seen (hotel # rest) =
     (if hotel_key hotel = None then first_seen rest
      else hotel # first_seen (filter (\<lambda>h. hotel_key h \<noteq> hotel_key hotel) rest))"
  by pat_completeness auto
termination
  by (relation "measure length") (auto simp: less_Suc_eq_le)

text \<open>The standardized records with their identifiers \<open>ddg-n\<close>, \<open>ddg-(n+1)\<close>, ...\<close>

definition numbered :: "nat \<Rightarrow> raw_hotel list \<Rightarrow> web_hotel list" where
  "numbered n hotels = map (\<lambda>(i, hotel). standardize i hotel) (zip [n ..< n + length hotels] hotels)"

text \<open>
  For the proofs: the hotels the loops append when \<open>names\<close> are already remembered and
  no limit applies, and the keys of a list of hotels.
\<close>

fun dedupe_from :: "string set \<Rightarrow> raw_hotel list \<Rightarrow> raw_hotel list" where
  "dedupe_from names [] = []"
| "dedupe_from names (hotel # rest) =
     (case hotel_key hotel of
        None \<Rightarrow> dedupe_from names rest
      | Some k \<Rightarrow> if k \<in> names then dedupe_from names rest
                  else hotel # dedupe_from (insert k names) rest)"

definition keys_of :: "raw_hotel list \<Rightarrow> string set" where
  "keys_of hotels = {k. \<exists>h\<in>set hotels. hotel_key h = Some k}"

text \<open>Two pages that name the same hotel with another spelling.\<close>

definition ville_pages_spaced :: "page list" where
  "ville_pages_spaced =
     [page_of ''https://a.example'' [raw_named ''Hotel De Ville'' ''1 rue A''],
      page_of ''https://b.example'' [raw_named ''hotel   de ville'' ''2 rue B'']]"

definition ville_pages_case :: "page list" where
  "ville_pages_case =
     [page_of ''https://a.example'' [raw_named ''Hotel De Ville'' ''1 rue A''],
      page_of ''https://b.example'' [raw_named ''hotel de ville'' ''2 rue B'']]"

section \<open>Properties of the deduplication\<close>

lemma unique_loop_keys:
  "unique_loop S xs = Inr ys \<Longrightarrow> a \<in> set ys \<Longrightarrow>
     \<exists>n. get_name_lower (act_name a) = Inr n \<and> n \<noteq> [] \<and> n \<notin> S"
proof (induction xs arbitrary: S ys)
  case Nil
  then show ?case by simp
next
  case (Cons x xs)
  show ?case
  proof (cases "get_name_lower (act_name x)")
    case (Inl e)
    with Cons.prems show ?thesis by simp
  next
    case (Inr n)
    show ?thesis
    proof (cases "n \<noteq> [] \<and> n \<notin> S")
      case True
      with Inr Cons.prems obtain kept where
        k: "unique_loop (insert n S) xs = Inr kept" and ys: "ys = x # kept"
        by (auto split: sum.splits)
      from Cons.prems(2) ys have "a = x \<or> a \<in> set kept" by auto
      then show ?thesis
      proof
        assume "a = x" with Inr True show ?thesis by simp
      next
        assume "a \<in> set kept"
        from Cons.IH [OF k this] show ?thesis by auto
      qed
    next
      case False
      with Inr Cons.prems have "unique_loop S xs = Inr ys" by auto
      from Cons.IH [OF this Cons.prems(2)] show ?thesis .
    qed
  qed
qed

lemma unique_loop_fixed:
  "unique_loop S xs = Inr ys \<Longrightarrow>
   (\<And>a n. a \<in> set ys \<Longrightarrow> get_name_lower (act_name a) = Inr n \<Longrightarrow> n \<notin> T) \<Longrightarrow>
   unique_loop T ys = Inr ys"
proof (induction xs arbitrary: S T ys)
  case Nil
  then show ?case by simp
next
  case (Cons x xs)
  show ?case
  proof (cases "get_name_lower (act_name x)")
    case (Inl e)
    with Cons.prems show ?thesis by simp
  next
    case (Inr n)
    show ?thesis
    proof (cases "n \<noteq> [] \<and> n \<notin> S")
      case True
      with Inr Cons.prems obtain kept where
        k: "unique_loop (insert n S) xs = Inr kept" and ys: "ys = x # kept"
        by (auto split: sum.splits)
      have nT: "n \<notin> T" using Cons.prems(2) [of x n] ys Inr by simp
      have "unique_loop (insert n T) kept = Inr kept"
      proof (rule Cons.IH [OF k])
        fix a m assume a: "a \<in> set kept" and m: "get_name_lower (act_name a) = Inr m"
        from unique_loop_keys [OF k a] m have "m \<noteq> n" by auto
        moreover from Cons.prems(2) [of a m] a m ys have "m \<notin> T" by simp
        ultimately show "m \<notin> insert n T" by simp
      qed
      with Inr True nT ys show ?thesis by simp
    next
      case False
      with Inr Cons.prems have "unique_loop S xs = Inr ys" by auto
      from Cons.IH [OF this Cons.prems(2)] show ?thesis by simp
    qed
  qed
qed

text \<open>
  C7. Deduplication is idempotent: whenever the dedupe step of \<open>search_activities\<close>
  returns a list of activities, running the same step on that list returns it unchanged,
  \<open>dedupe (dedupe x) = dedupe x\<close>.
\<close>

theorem C7_dedupe_idempotent:
  "unique_activities x = Inr ys \<Longrightarrow> unique_activities ys = Inr ys"
  unfolding unique_activities_def by (erule unique_loop_fixed) simp

theorem C7_dedupe_idempotent_witness:
  "unique_activities [louvre, louvre_upper, unnamed_activity] = Inr [louvre]
   \<and> unique_activities [louvre] = Inr [louvre]"
proof -
  have h: "unique_activities [louvre, louvre_upper, unnamed_activity] = Inr [louvre]"
    by (simp add: unique_activities_def louvre_def louvre_upper_def unnamed_activity_def
        lower_def lower_char_def)
  from h C7_dedupe_idempotent [OF h] show ?thesis by simp
qed

section \<open>Properties of the price extraction\<close>

lemma digit_not_sep: "is_digit c \<Longrightarrow> c \<noteq> CHR '','' \<and> c \<noteq> CHR ''.''"
  by (auto simp: is_digit_def)

lemma price_match_run:
  assumes pre: "\<forall>c\<in>set pre. \<not> is_digit c"
    and d: "is_digit d"
    and run: "\<forall>c\<in>set run. is_digit c \<or> c = CHR '','' \<or> c = CHR ''.''"
    and post: "post = [] \<or> \<not> (is_digit (hd post) \<or> hd post = CHR '','' \<or> hd post = CHR ''.'')"
  shows "price_match (pre @ d # run @ post) = Some (d # run)"
proof -
  let ?Q = "\<lambda>c. is_digit c \<or> c = CHR '','' \<or> c = CHR ''.''"
  have 1: "dropWhile (\<lambda>c. \<not> is_digit c) (pre @ d # run @ post) = d # run @ post"
    using pre d by (simp add: dropWhile_append2)
  have 2: "takeWhile ?Q (d # run @ post) = d # run"
  proof (cases post)
    case Nil
    with d run show ?thesis by simp
  next
    case (Cons p ps)
    with post have "\<not> ?Q p" by simp
    with d run Cons show ?thesis by (simp add: takeWhile_tail)
  qed
  show ?thesis unfolding price_match_def Let_def 1 using 2 by simp
qed

lemma py_float_decimal:
  assumes ip: "\<forall>c\<in>set ip. is_digit c" and fp: "\<forall>c\<in>set fp. is_digit c"
  shows "py_float (ip @ CHR ''.'' # fp)
         = Some (of_nat (digits_val ip) + of_nat (digits_val fp) / 10 ^ length fp)"
proof -
  have nd: "\<forall>c\<in>set ip. c \<noteq> CHR ''.''" "\<forall>c\<in>set fp. c \<noteq> CHR ''.''"
    using ip fp digit_not_sep by blast+
  have 1: "takeWhile (\<lambda>c. c \<noteq> CHR ''.'') (ip @ CHR ''.'' # fp) = ip"
    using nd(1) by (simp add: takeWhile_tail)
  have 2: "dropWhile (\<lambda>c. c \<noteq> CHR ''.'') (ip @ CHR ''.'' # fp) = CHR ''.'' # fp"
    using nd(1) by (simp add: dropWhile_append2)
  have 3: "CHR ''.'' \<notin> set fp" using nd(2) by blast
  show ?thesis unfolding py_float_def Let_def 1 2 using 3 by simp
qed

lemma extract_price_decimal:
  assumes pre: "\<forall>c\<in>set pre. \<not> is_digit c"
    and d: "is_digit d"
    and ip: "\<forall>c\<in>set ip. is_digit c \<or> c = CHR '',''"
    and fp: "\<forall>c\<in>set fp. is_digit c"
    and post: "post = [] \<or> \<not> (is_digit (hd post) \<or> hd post = CHR '','' \<or> hd post = CHR ''.'')"
  shows "extract_price (pre @ d # ip @ CHR ''.'' # fp @ post)
         = Some (of_nat (digits_val (d # filter (\<lambda>c. c \<noteq> CHR '','') ip))
                 + of_nat (digits_val fp) / 10 ^ length fp)"
proof -
  let ?run = "ip @ CHR ''.'' # fp"
  have run: "\<forall>c\<in>set ?run. is_digit c \<or> c = CHR '','' \<or> c = CHR ''.''"
    using ip fp by auto
  have m: "price_match (pre @ d # ?run @ post) = Some (d # ?run)"
    by (rule price_match_run [OF pre d run post])
  have f: "filter (\<lambda>c. c \<noteq> CHR '','') (d # ?run)
           = (d # filter (\<lambda>c. c \<noteq> CHR '','') ip) @ CHR ''.'' # fp"
    using d fp digit_not_sep by (auto simp: filter_id_conv)
  have dig: "\<forall>c\<in>set (d # filter (\<lambda>c. c \<noteq> CHR '','') ip). is_digit c"
    using d ip by auto
  have "extract_price (pre @ d # ?run @ post)
        = py_float ((d # filter (\<lambda>c. c \<noteq> CHR '','') ip) @ CHR ''.'' # fp)"
    unfolding extract_price_def m using f by simp
  also have "\<dots> = Some (of_nat (digits_val (d # filter (\<lambda>c. c \<noteq> CHR '','') ip))
                 + of_nat (digits_val fp) / 10 ^ length fp)"
    by (rule py_float_decimal [OF dig fp])
  finally show ?thesis by simp
qed

lemma extract_price_run:
  assumes pre: "\<forall>c\<in>set pre. \<not> is_digit c"
    and d: "is_digit d"
    and run: "\<forall>c\<in>set run. is_digit c \<or> c = CHR '','' \<or> c = CHR ''.''"
    and post: "post = [] \<or> \<not> (is_digit (hd post) \<or> hd post = CHR '','' \<or> hd post = CHR ''.'')"
  shows "extract_price (pre @ d # run @ post) = py_float (d # filter (\<lambda>c. c \<noteq> CHR '','') run)"
proof -
  have "price_match (pre @ d # run @ post) = Some (d # run)"
    by (rule price_match_run [OF pre d run post])
  moreover have "d \<noteq> CHR '',''" using d digit_not_sep by blast
  ultimately show ?thesis by (simp add: extract_price_def)
qed

lemma py_float_int:
  assumes "\<forall>c\<in>set s. is_digit c"
  shows "py_float s = Some (of_nat (digits_val s))"
proof -
  have "\<forall>c\<in>set s. c \<noteq> CHR ''.''" using assms digit_not_sep by blast
  then have t: "takeWhile (\<lambda>c. c \<noteq> CHR ''.'') s = s"
    and dr: "dropWhile (\<lambda>c. c \<noteq> CHR ''.'') s = []"
    by simp_all
  show ?thesis unfolding py_float_def Let_def t dr by simp
qed

lemma py_float_many_dots:
  assumes "2 \<le> length (filter (\<lambda>c. c = CHR ''.'') s)"
  shows "py_float s = None"
proof -
  let ?P = "\<lambda>c. c \<noteq> CHR ''.''"
  have "filter (\<lambda>c. c = CHR ''.'') (takeWhile ?P s) = []"
    using set_takeWhileD [of _ ?P s] by (auto simp: filter_empty_conv)
  moreover have "filter (\<lambda>c. c = CHR ''.'') s
      = filter (\<lambda>c. c = CHR ''.'') (takeWhile ?P s) @ filter (\<lambda>c. c = CHR ''.'') (dropWhile ?P s)"
  proof -
    have "filter (\<lambda>c. c = CHR ''.'') (takeWhile ?P s @ dropWhile ?P s)
      = filter (\<lambda>c. c = CHR ''.'') (takeWhile ?P s) @ filter (\<lambda>c. c = CHR ''.'') (dropWhile ?P s)"
      by (rule filter_append)
    then show ?thesis by (simp only: takeWhile_dropWhile_id)
  qed
  ultimately have "length (filter (\<lambda>c. c = CHR ''.'') s)
             = length (filter (\<lambda>c. c = CHR ''.'') (dropWhile ?P s))"
    by simp
  with assms have two: "2 \<le> length (filter (\<lambda>c. c = CHR ''.'') (dropWhile ?P s))" by simp
  then obtain r rs where r: "dropWhile ?P s = r # rs" by (cases "dropWhile ?P s") auto
  then have "r = CHR ''.''" using hd_dropWhile [of ?P s] by auto
  with two r have "1 \<le> length (filter (\<lambda>c. c = CHR ''.'') rs)" by simp
  then have "filter (\<lambda>c. c = CHR ''.'') rs \<noteq> []" by auto
  then have "CHR ''.'' \<in> set rs" by (simp add: filter_empty_conv)
  with r show ?thesis by (simp add: py_float_def)
qed

lemma extract_price_no_digit:
  assumes "\<forall>c\<in>set price_text. \<not> is_digit c"
  shows "extract_price price_text = None"
proof -
  from assms have "dropWhile (\<lambda>c. \<not> is_digit c) price_text = []" by simp
  then show ?thesis by (simp add: extract_price_def price_match_def)
qed

lemma digits_val_snoc: "digits_val (s @ [c]) = 10 * digits_val s + digit_val c"
  by (simp add: digits_val_def)

lemma digit_val_table: "map digit_val ''0123456789'' = [0, 1, 2, 3, 4, 5, 6, 7, 8, 9]"
  by (simp add: digit_val_def)

lemma filter_commas_digits:
  assumes "\<forall>c\<in>set s. is_digit c \<or> c = CHR '',''"
  shows "\<forall>c\<in>set (filter (\<lambda>c. c \<noteq> CHR '','') s). is_digit c"
  using assms by auto

text \<open>
  C9. Price parsing skips whatever precedes the first digit (currency symbols, currency
  codes, spaces), takes the run of digits, commas and dots that starts there, removes the
  thousands separators and reads the digits as a decimal number; it returns \<open>None\<close>,
  not zero, whenever the text contains no digit.  The four cases below cover every text:
  no digit; a run without a dot, read as a whole number; a run with one dot, read as a
  decimal fraction; a run with more dots, which is no number.  \<open>digits_val\<close> is the
  decimal reading of a digit string.  The text "USD 842.50" parses to 842.50 and the
  empty string to \<open>None\<close>.
\<close>

theorem C9_extract_price:
  "((\<forall>c\<in>set price_text. \<not> is_digit c) \<longrightarrow> extract_price price_text = None)
   \<and> ((\<forall>c\<in>set pre. \<not> is_digit c) \<and> is_digit d
        \<and> (post = [] \<or> \<not> (is_digit (hd post) \<or> hd post = CHR '','' \<or> hd post = CHR ''.''))
        \<longrightarrow>
          ((\<forall>c\<in>set ip. is_digit c \<or> c = CHR '','')
             \<longrightarrow> extract_price (pre @ d # ip @ post)
                 = Some (of_nat (digits_val (d # filter (\<lambda>c. c \<noteq> CHR '','') ip))))
          \<and> ((\<forall>c\<in>set ip. is_digit c \<or> c = CHR '','') \<and> (\<forall>c\<in>set fp. is_digit c \<or> c = CHR '','')
             \<longrightarrow> extract_price (pre @ d # ip @ CHR ''.'' # fp @ post)
                 = Some (of_nat (digits_val (d # filter (\<lambda>c. c \<noteq> CHR '','') ip))
                         + of_nat (digits_val (filter (\<lambda>c. c \<noteq> CHR '','') fp))
                           / 10 ^ length (filter (\<lambda>c. c \<noteq> CHR '','') fp)))
          \<and> ((\<forall>c\<in>set run. is_digit c \<or> c = CHR '','' \<or> c = CHR ''.'')
               \<and> 2 \<le> length (filter (\<lambda>c. c = CHR ''.'') run)
             \<longrightarrow> extract_price (pre @ d # run @ post) = None))
   \<and> digits_val [] = 0
   \<and> digits_val (s @ [c]) = 10 * digits_val s + digit_val c
   \<and> map digit_val ''0123456789'' = [0, 1, 2, 3, 4, 5, 6, 7, 8, 9]
   \<and> extract_price ''USD 842.50'' = Some 842.50
   \<and> extract_price [] = None"
proof (intro conjI impI)
  assume "\<forall>c\<in>set price_text. \<not> is_digit c"
  then show "extract_price price_text = None" by (rule extract_price_no_digit)
next
  assume h: "(\<forall>c\<in>set pre. \<not> is_digit c) \<and> is_digit d
        \<and> (post = [] \<or> \<not> (is_digit (hd post) \<or> hd post = CHR '','' \<or> hd post = CHR ''.''))"
  then have pre: "\<forall>c\<in>set pre. \<not> is_digit c" and d: "is_digit d"
    and post: "post = [] \<or> \<not> (is_digit (hd post) \<or> hd post = CHR '','' \<or> hd post = CHR ''.'')"
    by simp_all
  {
    assume ip: "\<forall>c\<in>set ip. is_digit c \<or> c = CHR '',''"
    then have run: "\<forall>c\<in>set ip. is_digit c \<or> c = CHR '','' \<or> c = CHR ''.''" by blast
    have dig: "\<forall>c\<in>set (d # filter (\<lambda>c. c \<noteq> CHR '','') ip). is_digit c"
      using d ip by auto
    show "extract_price (pre @ d # ip @ post)
          = Some (of_nat (digits_val (d # filter (\<lambda>c. c \<noteq> CHR '','') ip)))"
      unfolding extract_price_run [OF pre d run post] by (rule py_float_int [OF dig])
  }
  {
    assume a: "(\<forall>c\<in>set ip. is_digit c \<or> c = CHR '','') \<and> (\<forall>c\<in>set fp. is_digit c \<or> c = CHR '','')"
    let ?ip = "filter (\<lambda>c. c \<noteq> CHR '','') ip" and ?fp = "filter (\<lambda>c. c \<noteq> CHR '','') fp"
    have run: "\<forall>c\<in>set (ip @ CHR ''.'' # fp). is_digit c \<or> c = CHR '','' \<or> c = CHR ''.''"
      using a by auto
    have dig: "\<forall>c\<in>set (d # ?ip). is_digit c" using d a by auto
    have fdig: "\<forall>c\<in>set ?fp. is_digit c" using a by auto
    have "extract_price (pre @ d # (ip @ CHR ''.'' # fp) @ post)
          = py_float (d # filter (\<lambda>c. c \<noteq> CHR '','') (ip @ CHR ''.'' # fp))"
      by (rule extract_price_run [OF pre d run post])
    also have "d # filter (\<lambda>c. c \<noteq> CHR '','') (ip @ CHR ''.'' # fp) = (d # ?ip) @ CHR ''.'' # ?fp"
      by simp
    also have "py_float ((d # ?ip) @ CHR ''.'' # ?fp)
               = Some (of_nat (digits_val (d # ?ip))
                       + of_nat (digits_val ?fp) / 10 ^ length ?fp)"
      by (rule py_float_decimal [OF dig fdig])
    finally show "extract_price (pre @ d # ip @ CHR ''.'' # fp @ post)
          = Some (of_nat (digits_val (d # ?ip)) + of_nat (digits_val ?fp) / 10 ^ length ?fp)"
      by simp
  }
  {
    assume a: "(\<forall>c\<in>set run. is_digit c \<or> c = CHR '','' \<or> c = CHR ''.'')
               \<and> 2 \<le> length (filter (\<lambda>c. c = CHR ''.'') run)"
    then have run: "\<forall>c\<in>set run. is_digit c \<or> c = CHR '','' \<or> c = CHR ''.''" by simp
    have "filter (\<lambda>c. c = CHR ''.'') (filter (\<lambda>c. c \<noteq> CHR '','') run)
          = filter (\<lambda>c. c = CHR ''.'') run"
      by (auto intro: filter_cong)
    with a have "2 \<le> length (filter (\<lambda>c. c = CHR ''.'') (d # filter (\<lambda>c. c \<noteq> CHR '','') run))"
      by simp
    then show "extract_price (pre @ d # run @ post) = None"
      unfolding extract_price_run [OF pre d run post] by (rule py_float_many_dots)
  }
next
  show "digits_val [] = 0" by (simp add: digits_val_def)
next
  show "digits_val (s @ [c]) = 10 * digits_val s + digit_val c" by (rule digits_val_snoc)
next
  show "map digit_val ''0123456789'' = [0, 1, 2, 3, 4, 5, 6, 7, 8, 9]" by (rule digit_val_table)
next
  show "extract_price ''USD 842.50'' = Some 842.50"
    by (simp add: extract_price_def price_match_def py_float_def is_digit_def
        digits_val_def digit_val_def)
next
  show "extract_price [] = None" by (simp add: extract_price_def)
qed

theorem C9_extract_price_witness:
  "extract_price ''Price N/A'' = None
   \<and> extract_price ''$1,234 per night'' = Some 1234
   \<and> extract_price ''$1,234.56 per night'' = Some 1234.56
   \<and> extract_price ''$1.2.3 per night'' = None"
proof -
  have n: "\<forall>c\<in>set ''Price N/A''. \<not> is_digit c" by (simp add: is_digit_def)
  have h: "(\<forall>c\<in>set ''$''. \<not> is_digit c) \<and> is_digit CHR ''1''
        \<and> ('' per night'' = [] \<or> \<not> (is_digit (hd '' per night'') \<or> hd '' per night'' = CHR '',''
              \<or> hd '' per night'' = CHR ''.''))"
    by (simp add: is_digit_def)
  have i: "\<forall>c\<in>set '',234''. is_digit c \<or> c = CHR '',''"
    and f: "\<forall>c\<in>set ''56''. is_digit c \<or> c = CHR '',''"
    and r: "(\<forall>c\<in>set ''.2.3''. is_digit c \<or> c = CHR '','' \<or> c = CHR ''.'')
            \<and> 2 \<le> length (filter (\<lambda>c. c = CHR ''.'') ''.2.3'')"
    by (simp_all add: is_digit_def)
  from C9_extract_price [where price_text = "''Price N/A''" and pre = "''$''" and d = "CHR ''1''"
      and ip = "'',234''" and fp = "''56''" and post = "'' per night''" and run = "''.2.3''"]
    n h i f r
  show ?thesis by (simp add: digits_val_def digit_val_def)
qed

section \<open>Properties of the rankings\<close>

lemma sort_key_nth_mono:
  fixes key :: "'a \<Rightarrow> 'k::linorder"
  assumes "i < j" and "j < length xs"
  shows "key (sort_key key xs ! i) \<le> key (sort_key key xs ! j)"
proof -
  have "sorted (map key (sort_key key xs))" by (rule sorted_sort_key)
  then have "map key (sort_key key xs) ! i \<le> map key (sort_key key xs) ! j"
    using assms by (intro sorted_nth_mono) simp_all
  with assms show ?thesis by simp
qed

lemma lex_pair_le:
  fixes a c :: "'a::linorder" and b d :: "'b::linorder"
  shows "(a, b) \<le> (c, d) \<longleftrightarrow> a < c \<or> (a = c \<and> b \<le> d)"
  by (auto simp: less_eq_prod_def)


lemma price_key_none: "flight_price_key f = None \<longleftrightarrow> fl_price f = PriceNone"
  by (simp add: flight_price_key_def split: price_entry.splits)

lemma stops_priced_one_stop: "flight_stops priced_one_stop = 1"
  by (simp add: flight_stops_def priced_one_stop_def py_in_def lower_def lower_char_def
      first_number_def is_digit_def digits_val_def digit_val_def)

lemma stops_priced_direct: "flight_stops priced_direct = 0"
  by (simp add: flight_stops_def priced_direct_def py_in_def lower_def lower_char_def)

lemma stops_priced_two_stops: "flight_stops priced_two_stops = 2"
  by (simp add: flight_stops_def priced_two_stops_def py_in_def lower_def lower_char_def
      first_number_def is_digit_def digits_val_def digit_val_def)

lemma stops_amadeus_two_segments: "flight_stops amadeus_two_segments = 1"
  by (simp add: flight_stops_def amadeus_two_segments_def)

lemma stops_no_price_one_stop: "flight_stops no_price_one_stop = 1"
  by (simp add: flight_stops_def no_price_one_stop_def py_in_def lower_def lower_char_def
      first_number_def is_digit_def digits_val_def digit_val_def)

lemma stops_none_price_one_stop: "flight_stops none_price_one_stop = 1"
  by (simp add: flight_stops_def none_price_one_stop_def py_in_def lower_def lower_char_def
      first_number_def is_digit_def digits_val_def digit_val_def)

lemmas example_stops =
  stops_priced_one_stop stops_priced_direct stops_priced_two_stops stops_amadeus_two_segments
  stops_no_price_one_stop stops_none_price_one_stop

lemma example_price_keys:
  "flight_price_key priced_one_stop = Some (Finite 100)"
  "flight_price_key priced_direct = Some (Finite 300)"
  "flight_price_key priced_two_stops = Some (Finite 80)"
  "flight_price_key amadeus_two_segments = Some (Finite 842.5)"
  "flight_price_key no_price_one_stop = Some PosInf"
  "flight_price_key none_price_one_stop = None"
  by (simp_all add: flight_price_key_def priced_one_stop_def priced_direct_def
      priced_two_stops_def amadeus_two_segments_def no_price_one_stop_def
      none_price_one_stop_def)


lemma sorted_flights_raises:
  assumes "a \<in> set all_flights" and "b \<in> set all_flights"
    and "flight_stops a = flight_stops b"
    and "fl_price a = PriceNone" and "fl_price b \<noteq> PriceNone"
  shows "sorted_flights all_flights = Inl TypeError"
proof -
  have "incomparable (flight_sort_key a) (flight_sort_key b)"
    using assms(3,4,5) by (simp add: incomparable_def flight_sort_key_def price_key_none)
  with assms(1,2) show ?thesis by (auto simp: sorted_flights_def list_ex_iff)
qed

lemma sorted_flights_none_price_example:
  "sorted_flights [priced_one_stop, none_price_one_stop] = Inl TypeError"
  by (simp add: sorted_flights_def incomparable_def flight_sort_key_def example_stops
      example_price_keys)





lemma key_free_hostel: "scraper_rank_key free_hostel = (- 4, PosInf)"
  by (simp add: scraper_rank_key_def rating_or_0_def price_or_inf_def free_hostel_def)

lemma key_paid_hotel: "scraper_rank_key paid_hotel = (- 4, Finite 50)"
  by (simp add: scraper_rank_key_def rating_or_0_def price_or_inf_def paid_hotel_def)

lemma key_unrated_hotel: "scraper_rank_key unrated_hotel = (0, PosInf)"
  by (simp add: scraper_rank_key_def rating_or_0_def price_or_inf_def unrated_hotel_def)

text \<open>
  Both hotel rankings are stable sorts, descending by rating with a missing rating
  treated as 0, then ascending by the price key.  In \<open>get_accommodation_options\<close> the
  key of an absent price is infinity.  In \<open>HotelScraper._filter_and_rank_results\<close> the
  records without a name are dropped first, and the key is infinity for a missing price
  and for a price of 0.  Records with equal keys keep their original relative order.
\<close>

lemma hotel_rankings_sorted:
  "(i < j \<and> j < length all_accommodations \<longrightarrow>
      rating_or_0 (sorted_accommodations all_accommodations ! j)
        \<le> rating_or_0 (sorted_accommodations all_accommodations ! i)
      \<and> (rating_or_0 (sorted_accommodations all_accommodations ! i)
            = rating_or_0 (sorted_accommodations all_accommodations ! j)
          \<longrightarrow> snd (accommodation_sort_key (sorted_accommodations all_accommodations ! i))
               \<le> snd (accommodation_sort_key (sorted_accommodations all_accommodations ! j))))
   \<and> mset (sorted_accommodations all_accommodations) = mset all_accommodations
   \<and> filter (\<lambda>h. accommodation_sort_key h = k) (sorted_accommodations all_accommodations)
       = filter (\<lambda>h. accommodation_sort_key h = k) all_accommodations
   \<and> (m < n \<and> n < length (sorted_results results) \<longrightarrow>
      rating_or_0 (sorted_results results ! n) \<le> rating_or_0 (sorted_results results ! m)
      \<and> (rating_or_0 (sorted_results results ! m) = rating_or_0 (sorted_results results ! n)
          \<longrightarrow> price_or_inf (sorted_results results ! m) \<le> price_or_inf (sorted_results results ! n)))
   \<and> mset (sorted_results results) = mset (filter (\<lambda>r. h_name r \<noteq> []) results)
   \<and> filter (\<lambda>h. scraper_rank_key h = k) (sorted_results results)
       = filter (\<lambda>h. scraper_rank_key h = k) (filter (\<lambda>r. h_name r \<noteq> []) results)
   \<and> filter_and_rank_results results top_n = take top_n (sorted_results results)"
proof (intro conjI impI)
  assume ij: "i < j \<and> j < length all_accommodations"
  let ?a = "sorted_accommodations all_accommodations ! i"
  let ?b = "sorted_accommodations all_accommodations ! j"
  have le: "accommodation_sort_key ?a \<le> accommodation_sort_key ?b"
    unfolding sorted_accommodations_def using ij by (intro sort_key_nth_mono) simp_all
  then show "rating_or_0 ?b \<le> rating_or_0 ?a"
    by (auto simp: accommodation_sort_key_def lex_pair_le)
  {
    assume "rating_or_0 ?a = rating_or_0 ?b"
    with le show "snd (accommodation_sort_key ?a) \<le> snd (accommodation_sort_key ?b)"
      by (simp add: accommodation_sort_key_def lex_pair_le)
  }
next
  assume mn: "m < n \<and> n < length (sorted_results results)"
  let ?a = "sorted_results results ! m" and ?b = "sorted_results results ! n"
  have le: "scraper_rank_key ?a \<le> scraper_rank_key ?b"
    unfolding sorted_results_def using mn
    by (intro sort_key_nth_mono) (simp_all add: sorted_results_def)
  then show "rating_or_0 ?b \<le> rating_or_0 ?a"
    by (auto simp: scraper_rank_key_def lex_pair_le)
  {
    assume "rating_or_0 ?a = rating_or_0 ?b"
    with le show "price_or_inf ?a \<le> price_or_inf ?b"
      by (simp add: scraper_rank_key_def lex_pair_le)
  }
next
  show "mset (sorted_accommodations all_accommodations) = mset all_accommodations"
    by (simp add: sorted_accommodations_def)
next
  show "filter (\<lambda>h. accommodation_sort_key h = k) (sorted_accommodations all_accommodations)
        = filter (\<lambda>h. accommodation_sort_key h = k) all_accommodations"
    unfolding sorted_accommodations_def by (rule sort_key_stable)
next
  show "mset (sorted_results results) = mset (filter (\<lambda>r. h_name r \<noteq> []) results)"
    by (simp add: sorted_results_def)
next
  show "filter (\<lambda>h. scraper_rank_key h = k) (sorted_results results)
        = filter (\<lambda>h. scraper_rank_key h = k) (filter (\<lambda>r. h_name r \<noteq> []) results)"
    unfolding sorted_results_def by (rule sort_key_stable)
next
  show "filter_and_rank_results results top_n = take top_n (sorted_results results)"
    by (simp add: filter_and_rank_results_def sorted_results_def)
qed

lemma hotel_rankings_sorted_example:
  "sorted_results [unrated_hotel, free_hostel, paid_hotel] = [paid_hotel, free_hostel, unrated_hotel]
   \<and> sorted_accommodations [unrated_hotel, free_hostel, paid_hotel]
       = [free_hostel, paid_hotel, unrated_hotel]
   \<and> rating_or_0 unrated_hotel \<le> rating_or_0 paid_hotel
   \<and> price_or_inf paid_hotel \<le> price_or_inf free_hostel"
proof -
  let ?L = "[unrated_hotel, free_hostel, paid_hotel]"
  have s: "sorted_results ?L = [paid_hotel, free_hostel, unrated_hotel]"
    by (simp add: sorted_results_def key_free_hostel key_paid_hotel key_unrated_hotel lex_pair_le)
      (simp add: free_hostel_def paid_hotel_def unrated_hotel_def)
  have a: "sorted_accommodations ?L = [free_hostel, paid_hotel, unrated_hotel]"
    by (simp add: sorted_accommodations_def accommodation_sort_key_def rating_or_0_def
        free_hostel_def paid_hotel_def unrated_hotel_def lex_pair_le)
  have r: "rating_or_0 free_hostel = rating_or_0 paid_hotel"
    by (simp add: rating_or_0_def free_hostel_def paid_hotel_def)
  have ij: "(1::nat) < 2 \<and> 2 < length ?L" by simp
  have mn: "(0::nat) < 1 \<and> 1 < length (sorted_results ?L)" using s by simp
  from hotel_rankings_sorted [where i = 1 and j = 2 and all_accommodations = ?L
      and m = 0 and n = 1 and results = ?L] ij mn s a r
  show ?thesis by simp
qed

text \<open>
  C5. The claim says that the hotel ranking is ascending by price among equal ratings.
  \<open>HotelScraper._filter_and_rank_results\<close> ranks a hotel priced 0 after a hotel priced
  50 of the same rating: \<open>x.get("price") or float('inf')\<close> replaces the price 0 by
  infinity, where \<open>accommodation_sort_key\<close> keeps it.
\<close>

theorem C5_zero_price_ranked_last:
  "filter_and_rank_results [free_hostel, paid_hotel] 3 = [paid_hotel, free_hostel]
   \<and> sorted_accommodations [free_hostel, paid_hotel] = [free_hostel, paid_hotel]
   \<and> h_rating free_hostel = h_rating paid_hotel
   \<and> h_price free_hostel = Some 0 \<and> h_price paid_hotel = Some 50"
  by (simp add: filter_and_rank_results_def sorted_results_def key_free_hostel key_paid_hotel
      lex_pair_le)
    (simp add: sorted_accommodations_def accommodation_sort_key_def rating_or_0_def
      free_hostel_def paid_hotel_def lex_pair_le)

section \<open>Properties of the budget filter\<close>

lemma filter_hotels_priced:
  "h \<in> set (filter_hotels mx bounds acc filtered hotels) \<Longrightarrow>
   h \<in> set filtered \<or> (h \<in> set hotels \<and> h_price h \<noteq> None \<and> h_price h \<noteq> Some 0)"
proof (induction hotels arbitrary: filtered)
  case Nil
  then show ?case by simp
next
  case (Cons x xs)
  show ?case
  proof (cases "int (length filtered) \<ge> mx")
    case True
    with Cons.prems show ?thesis by simp
  next
    case False
    show ?thesis
    proof (cases "price_or_zero x \<noteq> 0 \<and> fst bounds \<le> price_or_zero x \<and> Finite (price_or_zero x) \<le> snd bounds \<and> type_matches acc x")
      case True
      with False Cons.prems have "h \<in> set (filter_hotels mx bounds acc (filtered @ [x]) xs)"
        by (simp add: Let_def)
      from Cons.IH [OF this] True show ?thesis
        by (auto simp: price_or_zero_def split: option.splits)
    next
      case f2: False
      with False Cons.prems have "h \<in> set (filter_hotels mx bounds acc filtered xs)"
        by (auto simp: Let_def split: if_splits)
      from Cons.IH [OF this] show ?thesis by auto
    qed
  qed
qed

lemma scraper_by_site_priced:
  "(site, hs) \<in> set (scraper_by_site mx b acc all_results) \<Longrightarrow> h \<in> set hs \<Longrightarrow>
   h_price h \<noteq> None \<and> h_price h \<noteq> Some 0"
proof (induction all_results)
  case Nil
  then show ?case by simp
next
  case (Cons p ps)
  obtain s hotels where p: "p = (s, hotels)" by (cases p)
  from Cons.prems(1) p consider
    (here) "hs = filter_hotels mx (budget_range b) acc [] hotels"
    | (later) "(site, hs) \<in> set (scraper_by_site mx b acc ps)"
    by (auto simp: Let_def split: if_splits)
  then show ?case
  proof cases
    case here
    with Cons.prems(2) filter_hotels_priced [of h mx "budget_range b" acc "[]" hotels]
    show ?thesis by simp
  next
    case later
    from Cons.IH [OF this Cons.prems(2)] show ?thesis .
  qed
qed
text \<open>
  C10. In \<open>get_accommodation_options\<close> the budget filter on the scraped hotels keeps no
  record whose price is 0, \<open>None\<close> or absent, whatever the budget level, the
  accommodation type and the limit: every hotel listed under a site of the
  scraper-sourced \<open>by_site\<close> entries has a price different from 0, although 0 lies in
  the range (0, 100) configured for the budget level "budget".
\<close>

theorem C10_zero_price_excluded:
  "(\<forall>(site, hotels) \<in> set (scraper_by_site max_results budget_level accommodation_type all_results).
      \<forall>hotel \<in> set hotels. h_price hotel \<noteq> None \<and> h_price hotel \<noteq> Some 0)
   \<and> budget_range ''budget'' = (0, Finite 100)
   \<and> fst (budget_range ''budget'') \<le> 0 \<and> Finite 0 \<le> snd (budget_range ''budget'')"
proof (intro conjI)
  show "\<forall>(site, hotels) \<in> set (scraper_by_site max_results budget_level accommodation_type all_results).
      \<forall>hotel \<in> set hotels. h_price hotel \<noteq> None \<and> h_price hotel \<noteq> Some 0"
    using scraper_by_site_priced by blast
  show b: "budget_range ''budget'' = (0, Finite 100)"
    by (simp add: budget_range_def price_ranges_def lower_def lower_char_def)
  show "fst (budget_range ''budget'') \<le> 0" by (simp add: b)
  show "Finite 0 \<le> snd (budget_range ''budget'')" by (simp add: b)
qed

theorem C10_zero_price_excluded_witness:
  "scraper_by_site 3 ''budget'' None
     [(''booking'', [free_hostel, paid_hotel, unrated_hotel]), (''agoda'', [unrated_hotel])]
     = [(''booking'', [paid_hotel])]
   \<and> h_price paid_hotel \<noteq> None \<and> h_price paid_hotel \<noteq> Some 0"
proof -
  let ?all = "[(''booking'', [free_hostel, paid_hotel, unrated_hotel]), (''agoda'', [unrated_hotel])]"
  have b: "budget_range ''budget'' = (0, Finite 100)"
    by (simp add: budget_range_def price_ranges_def lower_def lower_char_def)
  have s: "scraper_by_site 3 ''budget'' None ?all = [(''booking'', [paid_hotel])]"
    by (simp add: b price_or_zero_def type_matches_def free_hostel_def paid_hotel_def
        unrated_hotel_def)
  have p: "h_price paid_hotel \<noteq> None \<and> h_price paid_hotel \<noteq> Some 0"
    using C10_zero_price_excluded [of 3 "''budget''" None ?all] unfolding s by simp
  show ?thesis by (rule conjI [OF s p])
qed

section \<open>Properties of the retry loop\<close>

declare search_flights_loop.simps [simp del]

lemma search_flights_loop_calls:
  "snd (search_flights_loop api m r c) \<le> c + (m - r)"
proof (induction api m r c rule: search_flights_loop.induct)
  case (1 api m r c)
  show ?case
  proof (cases "r < m")
    case False
    then show ?thesis by (simp add: search_flights_loop.simps [of api m r c])
  next
    case True
    show ?thesis
    proof (cases "api c")
      case RateLimited
      with True 1(1) [OF True RateLimited] show ?thesis
        by (auto simp: search_flights_loop.simps [of api m r c])
    next
      case Crash
      with True 1(2) [OF True Crash] show ?thesis
        by (auto simp: search_flights_loop.simps [of api m r c])
    qed (use True in \<open>simp_all add: search_flights_loop.simps [of api m r c]\<close>)
  qed
qed

lemma search_flights_at_most_three_calls: "snd (search_flights client api) \<le> 3"
  using search_flights_loop_calls [of api 3 0 0] by (simp add: search_flights_def)

lemma search_flights_crash_returns_list: "search_flights True (\<lambda>_. Crash) = (PyList [], 3)"
  by code_simp

text \<open>
  C8. The claim says that \<open>search_flights\<close> returns a list under every failure mode of the
  API.  When every attempt is answered with a rate-limit error, the loop ends after three
  calls and the function returns \<open>None\<close>: the rate-limit branch continues the loop
  without the exhaustion test that the branch for other exceptions has.
\<close>

theorem C8_rate_limited_returns_none:
  "search_flights True (\<lambda>attempt. RateLimited) = (PyNone, 3)"
  by code_simp

section \<open>Properties of the trip planner\<close>

lemma fetch_category_eq:
  "fetch_category c label outcome st
   = (entry_of outcome, fst st @ error_of label outcome, snd st @ [c])"
  by (simp add: fetch_category_def entry_of_def error_of_def split: sum.splits)

lemma fetch_travel_info_eq:
  "fetch_travel_info outcome st =
    ((case outcome of Inr r \<Rightarrow> Info r | Inl e \<Rightarrow> InfoError e),
     fst st @ error_of ''travel information'' outcome, snd st @ [GetTravelInformation])"
  by (simp add: fetch_travel_info_def error_of_def split: sum.splits)

lemma plan_status_values: "plan_status errors \<in> {''success'', ''partial'', ''failed''}"
  by (simp add: plan_status_def)

lemma plan_trip_valid:
  assumes "sv_strptime sv (a_start_date a) = Some s"
    and "sv_strptime sv (a_end_date a) = Some e"
    and "s \<le> e"
  shows "\<exists>plan. fst (plan_trip sv a) = Plan plan
     \<and> tp_flights plan = entry_of (sv_get_flight_options sv a)
     \<and> tp_accommodations plan = entry_of (sv_get_accommodation_options sv a)
     \<and> tp_activities plan
         = (if a_include_activities a then Some (entry_of (sv_get_activity_options sv a))
            else None)
     \<and> tp_travel_info plan
         = (case sv_get_travel_information sv (a_origin_country a) (country_of a) of
              Inr r \<Rightarrow> Info r | Inl m \<Rightarrow> InfoError m)
     \<and> md_errors (tp_metadata plan) =
          error_of ''flight options'' (sv_get_flight_options sv a)
          @ error_of ''accommodation options'' (sv_get_accommodation_options sv a)
          @ (if a_include_activities a
             then error_of ''activity options'' (sv_get_activity_options sv a) else [])
          @ error_of ''travel information''
              (sv_get_travel_information sv (a_origin_country a) (country_of a))
     \<and> md_destination_city (tp_metadata plan) = a_destination_city a
     \<and> tp_status plan = plan_status (md_errors (tp_metadata plan))
     \<and> snd (plan_trip sv a) = [GetFlightOptions, GetAccommodationOptions]
          @ (if a_include_activities a then [GetActivityOptions] else [])
          @ [GetTravelInformation]
          @ (if sv_openai_api_key sv then [GenerateTripSummary] else [])"
  using assms
  by (simp add: plan_trip_def Let_def fetch_category_eq fetch_travel_info_eq country_of_def
      split: prod.splits)

text \<open>
  C2. For every query whose dates pass the validation, \<open>plan_trip\<close> returns a trip plan
  with metadata and a status, whichever fetchers raise: all of flights, accommodations,
  activities (when requested) and travel information are called in this order; a fetcher
  that raises leaves \<open>{"error": ..., "results": []}\<close> under its key (for the travel
  information \<open>{"error": ...}\<close>) and its message in the errors list of the metadata; a
  fetcher that returns has its result stored.
\<close>

theorem C2_plan_trip_degrades:
  "sv_strptime sv (a_start_date a) = Some s \<and> sv_strptime sv (a_end_date a) = Some e \<and> s \<le> e
   \<longrightarrow> (\<exists>plan. fst (plan_trip sv a) = Plan plan
      \<and> md_destination_city (tp_metadata plan) = a_destination_city a
      \<and> tp_status plan \<in> {''success'', ''partial'', ''failed''}
      \<and> snd (plan_trip sv a) = [GetFlightOptions, GetAccommodationOptions]
          @ (if a_include_activities a then [GetActivityOptions] else [])
          @ [GetTravelInformation]
          @ (if sv_openai_api_key sv then [GenerateTripSummary] else [])
      \<and> (\<forall>m. sv_get_flight_options sv a = Inl m \<longrightarrow>
            tp_flights plan = FetchError m []
            \<and> ''Could not retrieve flight options: '' @ m \<in> set (md_errors (tp_metadata plan)))
      \<and> (\<forall>r. sv_get_flight_options sv a = Inr r \<longrightarrow> tp_flights plan = Fetched r)
      \<and> (\<forall>m. sv_get_accommodation_options sv a = Inl m \<longrightarrow>
            tp_accommodations plan = FetchError m []
            \<and> ''Could not retrieve accommodation options: '' @ m
                \<in> set (md_errors (tp_metadata plan)))
      \<and> (\<forall>r. sv_get_accommodation_options sv a = Inr r \<longrightarrow> tp_accommodations plan = Fetched r)
      \<and> (a_include_activities a \<longrightarrow>
           (\<forall>m. sv_get_activity_options sv a = Inl m \<longrightarrow>
              tp_activities plan = Some (FetchError m [])
              \<and> ''Could not retrieve activity options: '' @ m
                  \<in> set (md_errors (tp_metadata plan)))
           \<and> (\<forall>r. sv_get_activity_options sv a = Inr r \<longrightarrow>
                tp_activities plan = Some (Fetched r)))
      \<and> (\<forall>m. sv_get_travel_information sv (a_origin_country a) (country_of a) = Inl m \<longrightarrow>
            tp_travel_info plan = InfoError m
            \<and> ''Could not retrieve travel information: '' @ m
                \<in> set (md_errors (tp_metadata plan)))
      \<and> (\<forall>r. sv_get_travel_information sv (a_origin_country a) (country_of a) = Inr r \<longrightarrow>
            tp_travel_info plan = Info r))"
proof
  assume "sv_strptime sv (a_start_date a) = Some s \<and> sv_strptime sv (a_end_date a) = Some e
          \<and> s \<le> e"
  then obtain plan where p: "fst (plan_trip sv a) = Plan plan"
    and fl: "tp_flights plan = entry_of (sv_get_flight_options sv a)"
    and ac: "tp_accommodations plan = entry_of (sv_get_accommodation_options sv a)"
    and av: "tp_activities plan
         = (if a_include_activities a then Some (entry_of (sv_get_activity_options sv a))
            else None)"
    and ti: "tp_travel_info plan
         = (case sv_get_travel_information sv (a_origin_country a) (country_of a) of
              Inr r \<Rightarrow> Info r | Inl m \<Rightarrow> InfoError m)"
    and er: "md_errors (tp_metadata plan) =
          error_of ''flight options'' (sv_get_flight_options sv a)
          @ error_of ''accommodation options'' (sv_get_accommodation_options sv a)
          @ (if a_include_activities a
             then error_of ''activity options'' (sv_get_activity_options sv a) else [])
          @ error_of ''travel information''
              (sv_get_travel_information sv (a_origin_country a) (country_of a))"
    and de: "md_destination_city (tp_metadata plan) = a_destination_city a"
    and st: "tp_status plan = plan_status (md_errors (tp_metadata plan))"
    and tr: "snd (plan_trip sv a) = [GetFlightOptions, GetAccommodationOptions]
          @ (if a_include_activities a then [GetActivityOptions] else [])
          @ [GetTravelInformation]
          @ (if sv_openai_api_key sv then [GenerateTripSummary] else [])"
    using plan_trip_valid [of sv a s e] by blast
  have sv: "tp_status plan \<in> {''success'', ''partial'', ''failed''}"
    unfolding st by (rule plan_status_values)
  show "\<exists>plan. fst (plan_trip sv a) = Plan plan
      \<and> md_destination_city (tp_metadata plan) = a_destination_city a
      \<and> tp_status plan \<in> {''success'', ''partial'', ''failed''}
      \<and> snd (plan_trip sv a) = [GetFlightOptions, GetAccommodationOptions]
          @ (if a_include_activities a then [GetActivityOptions] else [])
          @ [GetTravelInformation]
          @ (if sv_openai_api_key sv then [GenerateTripSummary] else [])
      \<and> (\<forall>m. sv_get_flight_options sv a = Inl m \<longrightarrow>
            tp_flights plan = FetchError m []
            \<and> ''Could not retrieve flight options: '' @ m \<in> set (md_errors (tp_metadata plan)))
      \<and> (\<forall>r. sv_get_flight_options sv a = Inr r \<longrightarrow> tp_flights plan = Fetched r)
      \<and> (\<forall>m. sv_get_accommodation_options sv a = Inl m \<longrightarrow>
            tp_accommodations plan = FetchError m []
            \<and> ''Could not retrieve accommodation options: '' @ m
                \<in> set (md_errors (tp_metadata plan)))
      \<and> (\<forall>r. sv_get_accommodation_options sv a = Inr r \<longrightarrow> tp_accommodations plan = Fetched r)
      \<and> (a_include_activities a \<longrightarrow>
           (\<forall>m. sv_get_activity_options sv a = Inl m \<longrightarrow>
              tp_activities plan = Some (FetchError m [])
              \<and> ''Could not retrieve activity options: '' @ m
                  \<in> set (md_errors (tp_metadata plan)))
           \<and> (\<forall>r. sv_get_activity_options sv a = Inr r \<longrightarrow>
                tp_activities plan = Some (Fetched r)))
      \<and> (\<forall>m. sv_get_travel_information sv (a_origin_country a) (country_of a) = Inl m \<longrightarrow>
            tp_travel_info plan = InfoError m
            \<and> ''Could not retrieve travel information: '' @ m
                \<in> set (md_errors (tp_metadata plan)))
      \<and> (\<forall>r. sv_get_travel_information sv (a_origin_country a) (country_of a) = Inr r \<longrightarrow>
            tp_travel_info plan = Info r)"
    apply (rule exI [of _ plan])
    apply (intro conjI allI impI)
    apply (rule p)
    apply (rule de)
    apply (rule sv)
    apply (rule tr)
    apply (simp_all add: fl ac av ti er entry_of_def error_of_def)
    done
qed

theorem C2_plan_trip_degrades_witness:
  "\<exists>plan. fst (plan_trip flaky_services paris_args) = Plan plan
     \<and> tp_flights plan = FetchError ''connection refused'' []
     \<and> tp_accommodations plan = Fetched ''hotels''
     \<and> snd (plan_trip flaky_services paris_args)
        = [GetFlightOptions, GetAccommodationOptions, GetActivityOptions, GetTravelInformation]"
proof -
  have d: "sv_strptime flaky_services (a_start_date paris_args) = Some 739417
           \<and> sv_strptime flaky_services (a_end_date paris_args) = Some 739424
           \<and> (739417::int) \<le> 739424"
    by (simp add: flaky_services_def paris_args_def)
  have f: "sv_get_flight_options flaky_services paris_args = Inl ''connection refused''"
    and h: "sv_get_accommodation_options flaky_services paris_args = Inr ''hotels''"
    and i: "a_include_activities paris_args" and k: "\<not> sv_openai_api_key flaky_services"
    by (simp_all add: flaky_services_def paris_args_def)
  from C2_plan_trip_degrades [of flaky_services paris_args 739417 739424] d
  obtain plan where "fst (plan_trip flaky_services paris_args) = Plan plan"
    and "snd (plan_trip flaky_services paris_args) = [GetFlightOptions, GetAccommodationOptions]
          @ (if a_include_activities paris_args then [GetActivityOptions] else [])
          @ [GetTravelInformation]
          @ (if sv_openai_api_key flaky_services then [GenerateTripSummary] else [])"
    and "\<forall>m. sv_get_flight_options flaky_services paris_args = Inl m \<longrightarrow>
            tp_flights plan = FetchError m []
            \<and> ''Could not retrieve flight options: '' @ m \<in> set (md_errors (tp_metadata plan))"
    and "\<forall>r. sv_get_accommodation_options flaky_services paris_args = Inr r
            \<longrightarrow> tp_accommodations plan = Fetched r"
    by blast
  with f h i k show ?thesis by auto
qed

section \<open>Properties of the Amadeus trip planner and of the flight pipeline\<close>

lemma suggest_calls [simp]: "st_calls (suggest s st) = st_calls st"
  by (simp add: suggest_def)

lemma suggest_hotels [simp]: "st_hotels (suggest s st) = st_hotels st"
  by (simp add: suggest_def)

lemma called_calls [simp]: "st_calls (called c st) = st_calls st @ [c]"
  by (simp add: called_def)

lemma called_hotels [simp]: "st_hotels (called c st) = st_hotels st"
  by (simp add: called_def)

lemma resolve_code_calls [simp]: "st_calls (snd (resolve_code src city code st)) = st_calls st"
  by (simp add: resolve_code_def Let_def)

lemma flights_section_calls:
  "set (st_calls (flights_section src td origin destination st))
   \<subseteq> set (st_calls st) \<union> {AmadeusGetCityCode origin, AmadeusGetCityCode destination, AmadeusSearchFlights}"
  by (auto simp: flights_section_def Let_def flight_error_def case_prod_beta
      split: sum.splits)

lemma store_activities_calls [simp]:
  "st_calls (store_activities destination activities st) = st_calls st"
  by (simp add: store_activities_def)

lemma activities_section_calls:
  "set (st_calls (activities_section src query destination st))
   \<subseteq> set (st_calls st) \<union> {DuckDuckGoSearchActivities, FirecrawlSearchActivities,
        FirecrawlSearchTouristAttractions, FirecrawlSearchRestaurants}"
  by (auto simp: activities_section_def Let_def activity_error_def split: sum.splits)

lemma hotels_section_sufficient:
  assumes "src_duckduckgo_search_hotels src destination td = Inr web_hotels" "web_hotels \<noteq> []"
  shows "st_calls (hotels_section src td destination st) = st_calls st @ [DuckDuckGoSearchHotels]"
    and "st_hotels (hotels_section src td destination st) = web_hotels"
  using assms by (simp_all add: hotels_section_def Let_def)

lemma hotels_section_no_amadeus:
  assumes "src_duckduckgo_search_hotels src destination td = Inr web_hotels"
    and "web_hotels \<noteq> []"
    and "AmadeusSearchHotels \<notin> set (st_calls st)"
  shows "AmadeusSearchHotels \<notin> set (st_calls (hotels_section src td destination st))"
  using assms by (simp add: hotels_section_sufficient(1))

text \<open>
  In \<open>AmadeusTripPlannerTool.plan_trip\<close> the fallback rule holds for the hotels: when the
  web search returns at least one hotel (in particular five), the Amadeus hotel search
  is never called and the hotels of the result are those of the web search.
\<close>

lemma amadeus_plan_trip_hotel_fallback:
  assumes "src_extract_trip_details src query = td"
    and "td_destination_city td = Some destination" and "destination \<noteq> []"
    and "src_duckduckgo_search_hotels src destination td = Inr web_hotels"
    and "web_hotels \<noteq> []"
  shows "AmadeusSearchHotels \<notin> set (snd (amadeus_plan_trip src query))"
proof -
  let ?st0 = "\<lparr>st_flights = [], st_hotels = [], st_activities = [],
               st_suggestions = [], st_calls = []\<rparr> :: 'a planner_state"
  let ?st1 = "if truthy (td_origin_city td)
              then flights_section src td (get_default (td_origin_city td) []) destination ?st0
              else ?st0"
  have 1: "AmadeusSearchHotels \<notin> set (st_calls ?st1)"
    using flights_section_calls [of src td "get_default (td_origin_city td) []" destination ?st0]
    by auto
  have 2: "AmadeusSearchHotels \<notin> set (st_calls (hotels_section src td destination ?st1))"
    by (rule hotels_section_no_amadeus [OF assms(4,5) 1])
  have 3: "AmadeusSearchHotels
           \<notin> set (st_calls (activities_section src query destination
                      (hotels_section src td destination ?st1)))"
    using activities_section_calls
      [of src query destination "hotels_section src td destination ?st1"] 2
    by auto
  have "snd (amadeus_plan_trip src query)
        = st_calls (activities_section src query destination
                      (hotels_section src td destination ?st1))"
    using assms(1,2,3) by (simp add: amadeus_plan_trip_def Let_def truthy_def get_default_def)
  with 3 show ?thesis by simp
qed

lemma get_flight_options_calls_scrapers:
  "ScraperSearchFlights \<in> set (snd (get_flight_options fs origin_city destination_city max_results))"
  by (simp add: get_flight_options_def scraper_flights_block_def Let_def case_prod_beta
      split: sum.splits)

text \<open>
  C1. The claim says that the flight pipeline does not query its second source once the
  first has yielded enough results.  In \<open>get_flight_options\<close> Amadeus returns three
  flights for \<open>max_results = 3\<close>, and the scrapers are queried all the same.
\<close>

theorem C1_flight_scrapers_always_queried:
  "snd (get_flight_options full_flight_sources ''New York'' ''Paris'' 3)
     = [AmadeusGetCityCode ''New York'', AmadeusGetCityCode ''Paris'', AmadeusSearchFlights,
        ScraperSearchFlights]
   \<and> fs_search_flights full_flight_sources ''NYC'' ''PAR''
       = Inr (PyList [amadeus_two_segments, amadeus_two_segments, amadeus_two_segments])"
  by (simp add: get_flight_options_def amadeus_flights_block_def scraper_flights_block_def
      full_flight_sources_def Let_def code_or_def truthy_def get_default_def items_def)

text \<open>
  C3. A query without a destination is rejected before any call: the tool wrapper
  returns the error with status "failed" and \<open>AmadeusTripPlannerTool.plan_trip\<close>
  returns the error with status "error"; in both cases the log of calls is empty.
\<close>

theorem C3_missing_destination_rejected:
  "((p_destination_city params = None \<or> p_destination_city params = Some [])
      \<longrightarrow> llm_trip_planner_tool sv params
          = (Rejected
               ''Missing required parameters. Must provide origin_city, destination_city, start_date, and end_date.''
               ''failed'', []))
   \<and> ((td_destination_city (src_extract_trip_details src query) = None
        \<or> td_destination_city (src_extract_trip_details src query) = Some [])
      \<longrightarrow> amadeus_plan_trip src query
          = (QueryError ''error''
               ''Could not determine the destination city from your query. Please specify where you want to go.'',
             []))"
  by (auto simp: llm_trip_planner_tool_def amadeus_plan_trip_def truthy_def Let_def)

theorem C3_missing_destination_rejected_witness:
  "llm_trip_planner_tool flaky_services no_destination_params
     = (Rejected
          ''Missing required parameters. Must provide origin_city, destination_city, start_date, and end_date.''
          ''failed'', [])
   \<and> amadeus_plan_trip paris_sources ''hello''
     = (QueryError ''error''
          ''Could not determine the destination city from your query. Please specify where you want to go.'',
        [])"
proof -
  have p: "p_destination_city no_destination_params = None
           \<or> p_destination_city no_destination_params = Some []"
    by (simp add: no_destination_params_def)
  have q: "td_destination_city (src_extract_trip_details paris_sources ''hello'') = None
           \<or> td_destination_city (src_extract_trip_details paris_sources ''hello'') = Some []"
    by (simp add: paris_sources_def)
  from C3_missing_destination_rejected
    [of no_destination_params flaky_services paris_sources "''hello''"] p q
  show ?thesis by blast
qed

section \<open>Properties of the hotel deduplication\<close>

lemma keys_of_simps [simp]:
  "keys_of [] = {}"
  "hotel_key h = Some k \<Longrightarrow> keys_of (h # hs) = insert k (keys_of hs)"
  "hotel_key h = None \<Longrightarrow> keys_of (h # hs) = keys_of hs"
  by (auto simp: keys_of_def)

lemma numbered_Nil [simp]: "numbered n [] = []"
  by (simp add: numbered_def)

lemma numbered_Cons [simp]: "numbered n (h # hs) = standardize n h # numbered (Suc n) hs"
  by (simp add: numbered_def upt_rec [of n "Suc (n + length hs)"] del: upt_Suc)

lemma numbered_append: "numbered n (xs @ ys) = numbered n xs @ numbered (n + length xs) ys"
  by (induction xs arbitrary: n) simp_all

lemma length_numbered [simp]: "length (numbered n hs) = length hs"
  by (simp add: numbered_def)

lemma dedupe_from_first_seen:
  "dedupe_from names hotels
   = first_seen (filter (\<lambda>h. \<forall>k. hotel_key h = Some k \<longrightarrow> k \<notin> names) hotels)"
proof (induction hotels arbitrary: names)
  case Nil
  then show ?case by simp
next
  case (Cons h hs)
  show ?case
  proof (cases "hotel_key h")
    case None
    then show ?thesis using Cons.IH [of names] by simp
  next
    case (Some k)
    show ?thesis
    proof (cases "k \<in> names")
      case True
      with Some show ?thesis using Cons.IH [of names] by simp
    next
      case False
      have "filter (\<lambda>x. hotel_key x \<noteq> Some k)
              (filter (\<lambda>h. \<forall>k. hotel_key h = Some k \<longrightarrow> k \<notin> names) hs)
            = filter (\<lambda>h. \<forall>k'. hotel_key h = Some k' \<longrightarrow> k' \<notin> insert k names) hs"
        by (auto intro: filter_cong)
      with Some False show ?thesis using Cons.IH [of "insert k names"] by simp
    qed
  qed
qed

lemma dedupe_from_empty: "dedupe_from {} hotels = first_seen hotels"
  by (simp add: dedupe_from_first_seen)

lemma dedupe_from_append:
  "dedupe_from names (xs @ ys)
   = dedupe_from names xs @ dedupe_from (names \<union> keys_of (dedupe_from names xs)) ys"
proof (induction xs arbitrary: names)
  case Nil
  then show ?case by simp
next
  case (Cons h hs)
  show ?case
  proof (cases "hotel_key h")
    case None
    then show ?thesis using Cons.IH [of names] by simp
  next
    case (Some k)
    show ?thesis
    proof (cases "k \<in> names")
      case True
      with Some show ?thesis using Cons.IH [of names] by simp
    next
      case False
      have "insert k names \<union> keys_of (dedupe_from (insert k names) hs)
            = names \<union> insert k (keys_of (dedupe_from (insert k names) hs))"
        by auto
      with Some False show ?thesis using Cons.IH [of "insert k names"] by simp
    qed
  qed
qed

lemma hotel_key_name: "hotel_key h = Some k \<Longrightarrow> \<exists>name. hotel_name h = Some name \<and> k = lower name"
  by (auto simp: hotel_key_def)

lemma hotels_loop_limit:
  assumes "int (length all_hotels) < max_results"
  shows "hotels_loop max_results (all_hotels, names) hotels
         = (all_hotels @ numbered (length all_hotels)
              (take (nat max_results - length all_hotels) (dedupe_from names hotels)),
            names \<union> keys_of (take (nat max_results - length all_hotels)
                                (dedupe_from names hotels)))"
  using assms
proof (induction hotels arbitrary: all_hotels names)
  case Nil
  then show ?case by simp
next
  case (Cons h hs)
  let ?m = "nat max_results - length all_hotels"
  from Cons.prems have m: "0 < ?m" by linarith
  show ?case
  proof (cases "hotel_key h")
    case None
    then have "hotel_name h = None" by (simp add: hotel_key_def)
    with None show ?thesis using Cons.IH [OF Cons.prems, of names] by simp
  next
    case (Some k)
    then obtain name where name: "hotel_name h = Some name" and k: "k = lower name"
      using hotel_key_name by blast
    show ?thesis
    proof (cases "k \<in> names")
      case True
      with Some name k show ?thesis using Cons.IH [OF Cons.prems, of names] by simp
    next
      case False
      let ?all = "all_hotels @ [standardize (length all_hotels) h]"
      obtain m' where m': "?m = Suc m'" using m by (cases ?m) auto
      show ?thesis
      proof (cases "int (length ?all) \<ge> max_results")
        case True
        then have "m' = 0" using m' Cons.prems by simp
        with True Some name k False m' show ?thesis by (simp add: Let_def)
      next
        case nf: False
        then have lt: "int (length ?all) < max_results" by simp
        have ml: "nat max_results - length ?all = m'" using m' by simp
        from Cons.IH [OF lt, of "insert k names"] nf Some name k False m' ml
        show ?thesis by (simp add: Let_def numbered_append)
      qed
    qed
  qed
qed


lemma page_step:
  "(case pg_hotels p of None \<Rightarrow> st
    | Some hotels \<Rightarrow> if hotels \<noteq> [] then hotels_loop max_results st hotels else st)
   = (if pg_content p = [] then
        (case pg_hotels p of None \<Rightarrow> st
         | Some hotels \<Rightarrow> if hotels \<noteq> [] then hotels_loop max_results st hotels else st)
      else hotels_loop max_results st (page_hotels p))"
  by (auto simp: page_hotels_def split: option.splits)

lemma results_loop_limit:
  assumes "int (length all_hotels) < max_results"
  shows "fst (results_loop max_results (all_hotels, names) pages)
         = all_hotels @ numbered (length all_hotels)
             (take (nat max_results - length all_hotels) (dedupe_from names (candidates pages)))"
  using assms
proof (induction pages arbitrary: all_hotels names)
  case Nil
  then show ?case by (simp add: candidates_def)
next
  case (Cons p pages)
  let ?m = "nat max_results - length all_hotels"
  have cands: "candidates (p # pages) = page_hotels p @ candidates pages"
    by (simp add: candidates_def)
  show ?case
  proof (cases "pg_content p = []")
    case True
    then have "page_hotels p = []" by (simp add: page_hotels_def)
    with True show ?thesis using Cons.IH [OF Cons.prems, of names] by (simp add: cands)
  next
    case False
    let ?D = "dedupe_from names (page_hotels p)"
    let ?T = "take ?m ?D"
    let ?st' = "(all_hotels @ numbered (length all_hotels) ?T, names \<union> keys_of ?T)"
    have step: "(case pg_hotels p of None \<Rightarrow> (all_hotels, names)
                 | Some hotels \<Rightarrow> if hotels \<noteq> []
                     then hotels_loop max_results (all_hotels, names) hotels
                     else (all_hotels, names))
                = ?st'"
      using False hotels_loop_limit [OF Cons.prems, of names "page_hotels p"]
      by (simp add: page_step)
    have rl: "results_loop max_results (all_hotels, names) (p # pages)
              = (if int (length (fst ?st')) \<ge> max_results then ?st'
                 else results_loop max_results ?st' pages)"
      using False unfolding results_loop.simps Let_def step by simp
    have app: "dedupe_from names (candidates (p # pages))
               = ?D @ dedupe_from (names \<union> keys_of ?D) (candidates pages)"
      by (simp add: cands dedupe_from_append)
    show ?thesis
    proof (cases "int (length (fst ?st')) \<ge> max_results")
      case True
      then have full: "?m \<le> length ?D" using Cons.prems by simp
      have "results_loop max_results (all_hotels, names) (p # pages) = ?st'"
        by (simp only: rl if_P [OF True])
      moreover have "take ?m (dedupe_from names (candidates (p # pages))) = ?T"
        using full by (simp add: app)
      ultimately show ?thesis by simp
    next
      case nf: False
      then have short: "length ?D < ?m" using Cons.prems by simp
      then have T: "?T = ?D" by simp
      have lt: "int (length (all_hotels @ numbered (length all_hotels) ?D)) < max_results"
        using nf T by simp
      have "results_loop max_results (all_hotels, names) (p # pages)
            = results_loop max_results ?st' pages"
        by (simp only: rl if_not_P [OF nf])
      then have "fst (results_loop max_results (all_hotels, names) (p # pages))
            = (all_hotels @ numbered (length all_hotels) ?D)
              @ numbered (length all_hotels + length ?D)
                  (take (?m - length ?D)
                     (dedupe_from (names \<union> keys_of ?D) (candidates pages)))"
        using Cons.IH [OF lt, of "names \<union> keys_of ?D"] T by (simp add: nat_diff_distrib')
      also have "\<dots> = all_hotels @ numbered (length all_hotels)
             (take ?m (dedupe_from names (candidates (p # pages))))"
        using short by (simp add: app numbered_append)
      finally show ?thesis .
    qed
  qed
qed

lemma search_hotels_exact:
  assumes "0 < max_results"
  shows "search_hotels max_results pages
         = numbered 0 (take (nat max_results) (first_seen (candidates pages)))"
proof (cases "pages = []")
  case True
  then show ?thesis by (simp add: search_hotels_def candidates_def)
next
  case False
  have "int (length ([] :: web_hotel list)) < max_results" using assms by simp
  from results_loop_limit [OF this, of "{}" pages] False
  show ?thesis by (simp add: search_hotels_def dedupe_from_empty)
qed

lemma hotels_loop_nonpos:
  assumes "max_results \<le> 0"
  shows "fst (hotels_loop max_results ([], names) hotels)
         = numbered 0 (take 1 (dedupe_from names hotels))"
proof (induction hotels)
  case Nil
  then show ?case by simp
next
  case (Cons h hs)
  show ?case
  proof (cases "hotel_key h")
    case None
    then have "hotel_name h = None" by (simp add: hotel_key_def)
    with None Cons show ?thesis by simp
  next
    case (Some k)
    then obtain name where name: "hotel_name h = Some name" and k: "k = lower name"
      using hotel_key_name by blast
    show ?thesis
    proof (cases "k \<in> names")
      case True
      with Some name k Cons show ?thesis by simp
    next
      case False
      with Some name k assms show ?thesis by (simp add: Let_def)
    qed
  qed
qed

lemma search_hotels_nonpos:
  assumes "max_results \<le> 0"
  shows "search_hotels max_results pages
         = (case find (\<lambda>p. pg_content p \<noteq> []) pages of
              None \<Rightarrow> []
            | Some p \<Rightarrow> numbered 0 (take 1 (first_seen (page_hotels p))))"
proof -
  have "fst (results_loop max_results ([], {}) pages)
        = (case find (\<lambda>p. pg_content p \<noteq> []) pages of
              None \<Rightarrow> []
            | Some p \<Rightarrow> numbered 0 (take 1 (first_seen (page_hotels p))))"
  proof (induction pages)
    case Nil
    then show ?case by simp
  next
    case (Cons p pages)
    show ?case
    proof (cases "pg_content p = []")
      case True
      with Cons show ?thesis by simp
    next
      case False
      let ?st' = "case pg_hotels p of None \<Rightarrow> ([], {})
                  | Some hotels \<Rightarrow> if hotels \<noteq> []
                      then hotels_loop max_results ([], {}) hotels else ([], {})"
      have "max_results \<le> int (length (fst ?st'))" using assms by linarith
      then have "results_loop max_results ([], {}) (p # pages) = ?st'"
        using False by (simp add: Let_def)
      moreover have "fst ?st' = numbered 0 (take 1 (first_seen (page_hotels p)))"
        using False hotels_loop_nonpos [OF assms, of "{}"]
        by (auto simp: page_hotels_def dedupe_from_empty split: option.splits)
      ultimately show ?thesis using False by simp
    qed
  qed
  then show ?thesis by (cases pages) (simp_all add: search_hotels_def)
qed

lemma first_seen_keyed: "h \<in> set (first_seen hotels) \<Longrightarrow> hotel_key h \<noteq> None \<and> h \<in> set hotels"
  by (induction hotels rule: first_seen.induct) (auto split: if_splits)

lemma first_seen_distinct: "distinct (map hotel_key (first_seen hotels))"
proof (induction hotels rule: first_seen.induct)
  case 1
  then show ?case by simp
next
  case (2 hotel rest)
  show ?case
  proof (cases "hotel_key hotel = None")
    case True
    with 2 show ?thesis by simp
  next
    case False
    have "hotel_key hotel \<notin> hotel_key ` set (first_seen (filter (\<lambda>h. hotel_key h \<noteq> hotel_key hotel) rest))"
      using first_seen_keyed by fastforce
    with False 2 show ?thesis by simp
  qed
qed

lemma first_seen_complete:
  "h \<in> set hotels \<Longrightarrow> hotel_key h \<noteq> None
   \<Longrightarrow> \<exists>h'\<in>set (first_seen hotels). hotel_key h' = hotel_key h"
proof (induction hotels rule: first_seen.induct)
  case 1
  then show ?case by simp
next
  case (2 hotel rest)
  show ?case
  proof (cases "hotel_key hotel = None")
    case True
    with 2 show ?thesis by auto
  next
    case False
    show ?thesis
    proof (cases "hotel_key h = hotel_key hotel")
      case True
      with False show ?thesis by auto
    next
      case ne: False
      with "2.prems" have "h \<in> set (filter (\<lambda>x. hotel_key x \<noteq> hotel_key hotel) rest)" by auto
      from "2.IH"(2) [OF False this "2.prems"(2)] False show ?thesis by auto
    qed
  qed
qed

lemma first_seen_first:
  "h \<in> set (first_seen hotels) \<Longrightarrow> find (\<lambda>x. hotel_key x = hotel_key h) hotels = Some h"
proof (induction hotels rule: first_seen.induct)
  case 1
  then show ?case by simp
next
  case (2 hotel rest)
  show ?case
  proof (cases "hotel_key hotel = None")
    case True
    with 2 first_seen_keyed [of h rest] show ?thesis by auto
  next
    case False
    show ?thesis
    proof (cases "h = hotel")
      case True
      then show ?thesis by simp
    next
      case ne: False
      with "2.prems" False
      have in': "h \<in> set (first_seen (filter (\<lambda>x. hotel_key x \<noteq> hotel_key hotel) rest))" by simp
      then have hk: "hotel_key h \<noteq> hotel_key hotel"
        using first_seen_keyed [OF in'] by auto
      have "find (\<lambda>x. hotel_key x = hotel_key h) (filter (\<lambda>x. hotel_key x \<noteq> hotel_key hotel) rest) = Some h"
        by (rule "2.IH"(2) [OF False in'])
      moreover have "find (\<lambda>x. hotel_key x = hotel_key h) (filter (\<lambda>x. hotel_key x \<noteq> hotel_key hotel) rest)
        = find (\<lambda>x. hotel_key x = hotel_key h) rest"
        using hk by (induction rest) auto
      ultimately show ?thesis using hk by auto
    qed
  qed
qed


lemma first_seen_snoc:
  "first_seen (hotels @ [hotel])
   = first_seen hotels
     @ (if hotel_key hotel \<noteq> None \<and> hotel_key hotel \<notin> hotel_key ` set hotels
        then [hotel] else [])"
proof (induction hotels rule: first_seen.induct)
  case 1
  then show ?case by simp
next
  case (2 h rest)
  show ?case
  proof (cases "hotel_key h")
    case None
    with "2.IH"(1) show ?thesis by auto
  next
    case (Some k)
    then have keyed: "hotel_key h \<noteq> None" by simp
    let ?rest = "filter (\<lambda>x. hotel_key x \<noteq> hotel_key h) rest"
    have unfold: "first_seen (h # xs) = h # first_seen (filter (\<lambda>x. hotel_key x \<noteq> hotel_key h) xs)"
      for xs using Some by simp
    show ?thesis
    proof (cases "hotel_key hotel = hotel_key h")
      case True
      then have "filter (\<lambda>x. hotel_key x \<noteq> hotel_key h) (rest @ [hotel]) = ?rest" by simp
      then have "first_seen ((h # rest) @ [hotel]) = first_seen (h # rest)"
        by (simp only: append_Cons unfold)
      moreover have "hotel_key hotel \<in> hotel_key ` set (h # rest)" using True by simp
      ultimately show ?thesis by simp
    next
      case ne: False
      have mem: "(hotel_key hotel \<in> hotel_key ` set ?rest)
                 = (hotel_key hotel \<in> hotel_key ` set (h # rest))"
        using ne by auto
      have "filter (\<lambda>x. hotel_key x \<noteq> hotel_key h) (rest @ [hotel]) = ?rest @ [hotel]"
        using ne by simp
      then have "first_seen ((h # rest) @ [hotel]) = h # first_seen (?rest @ [hotel])"
        by (simp only: append_Cons unfold)
      also have "first_seen (?rest @ [hotel])
            = first_seen ?rest
              @ (if hotel_key hotel \<noteq> None \<and> hotel_key hotel \<notin> hotel_key ` set ?rest
                 then [hotel] else [])"
        by (rule "2.IH"(2) [OF keyed])
      finally show ?thesis by (simp only: mem unfold append_Cons)
    qed
  qed
qed

lemma numbered_nth:
  "numbered n hotels = map (\<lambda>i. standardize (n + i) (hotels ! i)) [0 ..< length hotels]"
  by (rule nth_equalityI) (simp_all add: numbered_def)

lemma hotel_key_None: "hotel_key h = None \<longleftrightarrow> hotel_name h = None"
  by (simp add: hotel_key_def)

lemma hotel_key_eq:
  "hotel_name h1 = Some n1 \<Longrightarrow> hotel_name h2 = Some n2
   \<Longrightarrow> hotel_key h1 = hotel_key h2 \<longleftrightarrow> lower n1 = lower n2"
  by (simp add: hotel_key_def)

lemma lower_char_space: "lower_char c = CHR '' '' \<longleftrightarrow> c = CHR '' ''"
  by (simp add: lower_char_def)

lemma lower_spaces:
  assumes "lower n1 = lower n2"
  shows "length n1 = length n2 \<and> (\<forall>i<length n1. (n1 ! i = CHR '' '') = (n2 ! i = CHR '' ''))"
proof -
  from assms have len: "length n1 = length n2"
    unfolding lower_def by (rule map_eq_imp_length_eq)
  have "(n1 ! i = CHR '' '') = (n2 ! i = CHR '' '')" if "i < length n1" for i
  proof -
    from assms that len have "lower_char (n1 ! i) = lower_char (n2 ! i)"
      unfolding lower_def by (metis nth_map)
    then show ?thesis using lower_char_space [of "n1 ! i"] lower_char_space [of "n2 ! i"] by auto
  qed
  with len show ?thesis by simp
qed

lemmas hotel_eval =
  search_hotels_def page_of_def raw_named_def hotel_name_def standardize_def lower_def
  lower_char_def Let_def

lemma ville_case_example:
  "search_hotels 5 ville_pages_case = [standardize 0 (raw_named ''Hotel De Ville'' ''1 rue A'')]"
  by (simp add: ville_pages_case_def hotel_eval)

lemma ville_case_reversed_example:
  "search_hotels 5 (rev ville_pages_case)
   = [standardize 0 (raw_named ''hotel de ville'' ''2 rue B'')]"
  by (simp add: ville_pages_case_def hotel_eval)

text \<open>
  C6, as stated, fails: the key is the lowercased name, neither trimmed nor
  whitespace-collapsed, so "Hotel De Ville" and "hotel   de ville" do not collapse: both
  records are kept.
\<close>

theorem C6_whitespace_counterexample:
  "map wh_name (search_hotels 5 ville_pages_spaced) = [''Hotel De Ville'', ''hotel   de ville'']"
  by (simp add: ville_pages_spaced_def hotel_eval)

text \<open>
  C6, amended. Deduplication keys each record by its lowercased name (neither trimmed nor
  whitespace-collapsed) and keeps the first-seen record for each key.  For a positive
  \<open>max_results\<close> the result is exactly the first \<open>max_results\<close> first-seen records of
  the sources, taken in processing order and numbered from 0, where a record is first-seen
  when it has a name and no record before it has the same key; so the keys of the kept
  records are distinct, each kept record is the first one with its key, and every key that
  occurs is kept.  (With a \<open>max_results\<close> that is not positive the loops end after the
  first source with content, with at most one record, the first-seen one of that source.)  Two names have the same key exactly when their lowercased forms are
  equal, and then they have the same length and their spaces at the same positions.  In
  particular two hotel records named "Hotel De Ville" and "hotel de ville" (case
  difference only) collapse to a single record, and the retained record is the one from
  the earlier-processed (higher-priority) source, whichever of the two spellings it has.
\<close>

theorem C6_dedupe_first_seen:
  "(0 < max_results \<longrightarrow>
      search_hotels max_results pages
      = numbered 0 (take (nat max_results) (first_seen (candidates pages))))
   \<and> (max_results \<le> 0 \<longrightarrow>
        search_hotels max_results pages
        = (case find (\<lambda>p. pg_content p \<noteq> []) pages of
             None \<Rightarrow> []
           | Some p \<Rightarrow> numbered 0 (take 1 (first_seen (page_hotels p)))))
   \<and> numbered n kept = map (\<lambda>i. standardize (n + i) (kept ! i)) [0 ..< length kept]
   \<and> first_seen [] = []
   \<and> first_seen (hotels @ [hotel])
     = first_seen hotels
       @ (if hotel_key hotel \<noteq> None \<and> hotel_key hotel \<notin> hotel_key ` set hotels
          then [hotel] else [])
   \<and> distinct (map hotel_key (first_seen hotels))
   \<and> (\<forall>h\<in>set (first_seen hotels). find (\<lambda>x. hotel_key x = hotel_key h) hotels = Some h)
   \<and> (\<forall>h\<in>set hotels. hotel_key h \<noteq> None
         \<longrightarrow> (\<exists>h'\<in>set (first_seen hotels). hotel_key h' = hotel_key h))
   \<and> (hotel_key h = None \<longleftrightarrow> hotel_name h = None)
   \<and> (hotel_name h1 = Some n1 \<and> hotel_name h2 = Some n2
        \<longrightarrow> (hotel_key h1 = hotel_key h2 \<longleftrightarrow> lower n1 = lower n2))
   \<and> (lower n1 = lower n2
        \<longrightarrow> length n1 = length n2
            \<and> (\<forall>i<length n1. (n1 ! i = CHR '' '') = (n2 ! i = CHR '' '')))
   \<and> search_hotels 5 ville_pages_case
     = [standardize 0 (raw_named ''Hotel De Ville'' ''1 rue A'')]
   \<and> search_hotels 5 (rev ville_pages_case)
     = [standardize 0 (raw_named ''hotel de ville'' ''2 rue B'')]"
proof (intro conjI impI ballI)
  assume "0 < max_results"
  then show "search_hotels max_results pages
             = numbered 0 (take (nat max_results) (first_seen (candidates pages)))"
    by (rule search_hotels_exact)
next
  assume "max_results \<le> 0"
  then show "search_hotels max_results pages
        = (case find (\<lambda>p. pg_content p \<noteq> []) pages of
             None \<Rightarrow> []
           | Some p \<Rightarrow> numbered 0 (take 1 (first_seen (page_hotels p))))"
    by (rule search_hotels_nonpos)
next
  show "numbered n kept = map (\<lambda>i. standardize (n + i) (kept ! i)) [0 ..< length kept]"
    by (rule numbered_nth)
next
  show "first_seen [] = []" by simp
next
  show "first_seen (hotels @ [hotel])
        = first_seen hotels
          @ (if hotel_key hotel \<noteq> None \<and> hotel_key hotel \<notin> hotel_key ` set hotels
             then [hotel] else [])"
    by (rule first_seen_snoc)
next
  show "distinct (map hotel_key (first_seen hotels))" by (rule first_seen_distinct)
next
  fix h assume "h \<in> set (first_seen hotels)"
  then show "find (\<lambda>x. hotel_key x = hotel_key h) hotels = Some h" by (rule first_seen_first)
next
  fix h assume "h \<in> set hotels" and "hotel_key h \<noteq> None"
  then show "\<exists>h'\<in>set (first_seen hotels). hotel_key h' = hotel_key h"
    by (rule first_seen_complete)
next
  show "hotel_key h = None \<longleftrightarrow> hotel_name h = None" by (rule hotel_key_None)
next
  assume "hotel_name h1 = Some n1 \<and> hotel_name h2 = Some n2"
  then show "hotel_key h1 = hotel_key h2 \<longleftrightarrow> lower n1 = lower n2"
    by (simp add: hotel_key_eq)
next
  assume "lower n1 = lower n2"
  then show "length n1 = length n2" using lower_spaces by blast
next
  assume "lower n1 = lower n2"
  then show "\<forall>i<length n1. (n1 ! i = CHR '' '') = (n2 ! i = CHR '' '')"
    using lower_spaces by blast
next
  show "search_hotels 5 ville_pages_case
        = [standardize 0 (raw_named ''Hotel De Ville'' ''1 rue A'')]"
    by (rule ville_case_example)
next
  show "search_hotels 5 (rev ville_pages_case)
        = [standardize 0 (raw_named ''hotel de ville'' ''2 rue B'')]"
    by (rule ville_case_reversed_example)
qed

theorem C6_dedupe_first_seen_witness:
  "search_hotels 5 ville_pages_spaced
   = [standardize 0 (raw_named ''Hotel De Ville'' ''1 rue A''),
      standardize 1 (raw_named ''hotel   de ville'' ''2 rue B'')]
   \<and> search_hotels 0 ville_pages_spaced
     = [standardize 0 (raw_named ''Hotel De Ville'' ''1 rue A'')]
   \<and> find (\<lambda>x. hotel_key x = hotel_key (raw_named ''Hotel De Ville'' ''1 rue A''))
        [raw_named ''Hotel De Ville'' ''1 rue A'', raw_named ''hotel de ville'' ''2 rue B'']
     = Some (raw_named ''Hotel De Ville'' ''1 rue A'')
   \<and> hotel_key (raw_named ''hotel de ville'' ''2 rue B'')
     \<in> hotel_key ` set (first_seen
                  [raw_named ''Hotel De Ville'' ''1 rue A'',
                   raw_named ''hotel de ville'' ''2 rue B''])
   \<and> first_seen [raw_named ''Hotel De Ville'' ''1 rue A'',
                  raw_named ''hotel de ville'' ''2 rue B'']
     = [raw_named ''Hotel De Ville'' ''1 rue A'']
   \<and> hotel_key (raw_named ''Hotel De Ville'' ''1 rue A'')
     = hotel_key (raw_named ''hotel de ville'' ''2 rue B'')
   \<and> (''Hotel De Ville'' ! 5 = CHR '' '') = (''hotel de ville'' ! 5 = CHR '' '')"
proof -
  let ?A = "raw_named ''Hotel De Ville'' ''1 rue A''"
  let ?B = "raw_named ''hotel de ville'' ''2 rue B''"
  let ?S = "raw_named ''hotel   de ville'' ''2 rue B''"
  note C6 = C6_dedupe_first_seen [where max_results = 5 and pages = ville_pages_spaced
      and n = 0 and kept = "[?A, ?S]" and hotels = "[?A, ?B]" and hotel = ?B
      and ?h1.0 = ?A and ?h2.0 = ?B and ?n1.0 = "''Hotel De Ville''"
      and ?n2.0 = "''hotel de ville''"]
  have keys: "hotel_key ?A = Some ''hotel de ville''" "hotel_key ?B = Some ''hotel de ville''"
    "hotel_key ?S = Some ''hotel   de ville''"
    by (simp_all add: hotel_key_def hotel_eval)
  have cands: "candidates ville_pages_spaced = [?A, ?S]"
    by (simp add: candidates_def page_hotels_def ville_pages_spaced_def page_of_def)
  have fs: "first_seen [?A, ?S] = [?A, ?S]" "first_seen [?A, ?B] = [?A]"
    by (simp_all add: keys)
  have names: "hotel_name ?A = Some ''Hotel De Ville'' \<and> hotel_name ?B = Some ''hotel de ville''"
    by (simp add: hotel_eval)
  have low: "lower ''Hotel De Ville'' = lower ''hotel de ville''"
    by (simp add: lower_def lower_char_def)
  have pos: "(0::int) < 5" by simp
  from C6 pos have "search_hotels 5 ville_pages_spaced = numbered 0 (take (nat 5) (first_seen [?A, ?S]))"
    unfolding cands by blast
  then have 1: "search_hotels 5 ville_pages_spaced = [standardize 0 ?A, standardize 1 ?S]"
    unfolding fs by simp
  have first: "find (\<lambda>p. pg_content p \<noteq> []) ville_pages_spaced
               = Some (page_of ''https://a.example'' [?A])"
    and ph: "page_hotels (page_of ''https://a.example'' [?A]) = [?A]"
    and fa: "first_seen [?A] = [?A]"
    by (simp_all add: ville_pages_spaced_def page_of_def page_hotels_def keys)
  from C6_dedupe_first_seen [where max_results = 0 and pages = ville_pages_spaced]
  have "search_hotels 0 ville_pages_spaced
        = (case find (\<lambda>p. pg_content p \<noteq> []) ville_pages_spaced of
             None \<Rightarrow> []
           | Some p \<Rightarrow> numbered 0 (take 1 (first_seen (page_hotels p))))"
    by blast
  then have 0: "search_hotels 0 ville_pages_spaced = [standardize 0 ?A]"
    unfolding first option.case ph fa by simp
  from C6 have "\<forall>h\<in>set (first_seen [?A, ?B]).
      find (\<lambda>x. hotel_key x = hotel_key h) [?A, ?B] = Some h" by blast
  then have 2: "find (\<lambda>x. hotel_key x = hotel_key ?A) [?A, ?B] = Some ?A"
    unfolding fs by simp
  from C6 have "\<forall>h\<in>set [?A, ?B]. hotel_key h \<noteq> None
         \<longrightarrow> (\<exists>h'\<in>set (first_seen [?A, ?B]). hotel_key h' = hotel_key h)" by blast
  then have "\<exists>h'\<in>set (first_seen [?A, ?B]). hotel_key h' = hotel_key ?B"
    using keys(2) by simp
  then have 3: "hotel_key ?B \<in> hotel_key ` set (first_seen [?A, ?B])"
    by (metis imageI)
  from C6_dedupe_first_seen [where hotels = "[?A]" and hotel = ?B]
  have "first_seen ([?A] @ [?B])
        = first_seen [?A]
          @ (if hotel_key ?B \<noteq> None \<and> hotel_key ?B \<notin> hotel_key ` set [?A]
             then [?B] else [])"
    by blast
  then have 6: "first_seen [?A, ?B] = [?A]"
    unfolding fa by (simp add: keys)
  from C6 names low have 4: "hotel_key ?A = hotel_key ?B" by blast
  from C6 low have "\<forall>i<length ''Hotel De Ville''.
         (''Hotel De Ville'' ! i = CHR '' '') = (''hotel de ville'' ! i = CHR '' '')"
    by blast
  then have 5: "(''Hotel De Ville'' ! 5 = CHR '' '') = (''hotel de ville'' ! 5 = CHR '' '')"
    by simp
  from 0 1 2 3 6 4 5 show ?thesis by blast
qed

end
